theory Spec2Isabelle
  imports Main "HOL-Library.Word" "HOL-Library.Sublist"
begin

section \<open>JavaScript strings\<close>

text \<open>
  A JavaScript string is a sequence of UTF-16 code units; \<open>length\<close>, \<open>includes\<close>,
  \<open>substring\<close> and regular expressions without the \<open>u\<close> flag all work on code units.
  ASCII literals of the source are written \<open>js ''...''\<close>; the Japanese keywords are
  written as their code units.
\<close>

type_synonym jsstring = "16 word list"

definition js :: "string \<Rightarrow> jsstring" where
  "js s = map of_char s"

text \<open>
  \<open>String.prototype.toLowerCase\<close>, one code unit at a time. The mappings whose result
  holds an ASCII character are all here: \<open>A\<close>..\<open>Z\<close> go to \<open>a\<close>..\<open>z\<close>, the Kelvin sign
  U+212A goes to \<open>k\<close>, and the dotted capital I, U+0130, goes to \<open>i\<close> followed by the
  combining dot U+0307. Every other cased letter is mapped by JavaScript to another
  letter outside ASCII; such code units are left as they are here. In both forms they
  occur in no keyword of the todo rules and are deleted from a slug, so the functions
  below return what the code returns. Caseless code units (digits, white space, kana,
  kanji) are unchanged.
\<close>

definition toLowerCaseUnit :: "16 word \<Rightarrow> jsstring" where
  "toLowerCaseUnit c =
     (if 0x41 \<le> c \<and> c \<le> 0x5A then [c + 0x20]
      else if c = 0x212A then [0x6B]
      else if c = 0x0130 then [0x69, 0x0307]
      else [c])"

definition toLowerCase :: "jsstring \<Rightarrow> jsstring" where
  "toLowerCase s = concat (map toLowerCaseUnit s)"

fun startsWith :: "jsstring \<Rightarrow> jsstring \<Rightarrow> bool" where
  "startsWith s [] = True"
| "startsWith [] (k # ks) = False"
| "startsWith (c # cs) (k # ks) = (c = k \<and> startsWith cs ks)"

text \<open>\<open>String.prototype.includes\<close>: the search string occurs at some position.\<close>

fun includes_js :: "jsstring \<Rightarrow> jsstring \<Rightarrow> bool" where
  "includes_js [] k = (k = [])"
| "includes_js (c # cs) k = (startsWith (c # cs) k \<or> includes_js cs k)"

section \<open>Arrays\<close>

text \<open>
  \<open>Array.prototype.findIndex\<close> returns the index of the first element that satisfies
  the predicate, and \<open>-1\<close> when there is none.
\<close>

fun findIndex :: "('a \<Rightarrow> bool) \<Rightarrow> 'a list \<Rightarrow> int" where
  "findIndex P [] = - 1"
| "findIndex P (x # xs) =
     (if P x then 0
      else (let i = findIndex P xs in if i = - 1 then - 1 else i + 1))"

text \<open>
  \<open>xs.splice(start, 0, x)\<close> for \<open>start \<ge> 0\<close>: nothing is deleted, \<open>x\<close> is inserted in
  front of position \<open>start\<close>; a start beyond the end is clamped to the length.
\<close>

definition splice_insert :: "'a list \<Rightarrow> nat \<Rightarrow> 'a \<Rightarrow> 'a list" where
  "splice_insert xs start x = take start xs @ x # drop start xs"

definition push :: "'a list \<Rightarrow> 'a \<Rightarrow> 'a list" where
  "push xs x = xs @ [x]"

section \<open>Optional properties and object spread\<close>

text \<open>
  A property declared \<open>p?: T\<close> is absent, present with the value \<open>undefined\<close>, or
  present with a value. The spread \<open>{...defaults, ...options}\<close> takes every property that
  is present in \<open>options\<close> (also one that is \<open>undefined\<close>) and the default otherwise.
\<close>

datatype 'a optional = Absent | Undefined | Given 'a

fun spread_over :: "'a \<Rightarrow> 'a optional \<Rightarrow> 'a optional" where
  "spread_over d Absent = Given d"
| "spread_over d Undefined = Undefined"
| "spread_over d (Given v) = Given v"

fun truthy :: "bool optional \<Rightarrow> bool" where
  "truthy (Given b) = b"
| "truthy Undefined = False"
| "truthy Absent = False"

section \<open>Todo rule engine (class TodoEnhancer)\<close>

datatype TodoStatus = pending | in_progress | completed

record TodoItem =
  content :: jsstring
  activeForm :: jsstring
  status :: TodoStatus

record EnhancedTodoOptions =
  enforceGitCommit :: "bool optional"
  detectDocumentCreation :: "bool optional"
  autoLearningCapture :: "bool optional"

text \<open>The constructor: \<open>this.options\<close> is the defaults (all true) overridden by the argument.\<close>

definition TodoEnhancer :: "EnhancedTodoOptions \<Rightarrow> EnhancedTodoOptions" where
  "TodoEnhancer options =
     \<lparr> enforceGitCommit = spread_over True (enforceGitCommit options),
       detectDocumentCreation = spread_over True (detectDocumentCreation options),
       autoLearningCapture = spread_over True (autoLearningCapture options) \<rparr>"

text \<open>\<open>new TodoEnhancer()\<close>: the argument defaults to the empty object.\<close>

definition defaultEnhancer :: EnhancedTodoOptions where
  "defaultEnhancer =
     TodoEnhancer \<lparr> enforceGitCommit = Absent, detectDocumentCreation = Absent,
                    autoLearningCapture = Absent \<rparr>"

text \<open>
  \<open>todos.some(todo => keywords.some(k => todo.content.toLowerCase().includes(k.toLowerCase())))\<close>
\<close>

definition matchesAny :: "jsstring list \<Rightarrow> TodoItem \<Rightarrow> bool" where
  "matchesAny keywords todo =
     list_ex (\<lambda>keyword. includes_js (toLowerCase (content todo)) (toLowerCase keyword)) keywords"

definition documentKeywords :: "jsstring list" where
  "documentKeywords =
     [ [0x6307, 0x793A, 0x66F8], js ''instruction'', js ''report'', [0x5831, 0x544A, 0x66F8],
       [0x5B66, 0x7FD2, 0x8A18, 0x9332], js ''learning'', js ''handoff'',
       [0x5F15, 0x304D, 0x7D99, 0x304E],
       js ''pattern'', [0x30D1, 0x30BF, 0x30FC, 0x30F3], js ''decision'',
       [0x8A2D, 0x8A08, 0x5224, 0x65AD] ]"

definition hasDocumentCreation :: "TodoItem list \<Rightarrow> bool" where
  "hasDocumentCreation todos = list_ex (matchesAny documentKeywords) todos"

definition mentionsCommit :: "TodoItem \<Rightarrow> bool" where
  "mentionsCommit todo =
     (includes_js (toLowerCase (content todo)) (js ''git commit'') \<or>
      includes_js (toLowerCase (content todo)) (js ''commit''))"

definition hasGitCommit :: "TodoItem list \<Rightarrow> bool" where
  "hasGitCommit todos = list_ex mentionsCommit todos"

definition gitCommitTask :: TodoItem where
  "gitCommitTask =
     \<lparr> content = js ''Git commit documentation changes'',
       activeForm = js ''Committing documentation changes'',
       status = pending \<rparr>"

text \<open>
  \<open>addGitCommitRule\<close>, as the array it leaves behind: the method pushes onto the array it
  was given and returns that same array.
\<close>

definition addGitCommitRule :: "TodoItem list \<Rightarrow> TodoItem list" where
  "addGitCommitRule todos =
     (if hasDocumentCreation todos then
        (if \<not> hasGitCommit todos then push todos gitCommitTask else todos)
      else todos)"

definition learningTriggers :: "jsstring list" where
  "learningTriggers =
     [ js ''implement'', [0x5B9F, 0x88C5], js ''fix'', [0x4FEE, 0x6B63], js ''optimize'',
       [0x6700, 0x9069, 0x5316],
       js ''refactor'', [0x30EA, 0x30D5, 0x30A1, 0x30AF, 0x30BF], js ''design'',
       [0x8A2D, 0x8A08] ]"

definition hasLearningOpportunity :: "TodoItem list \<Rightarrow> bool" where
  "hasLearningOpportunity todos = list_ex (matchesAny learningTriggers) todos"

definition mentionsLearning :: "TodoItem \<Rightarrow> bool" where
  "mentionsLearning todo =
     (includes_js (toLowerCase (content todo)) (js ''learning'') \<or>
      includes_js (toLowerCase (content todo)) [0x5B66, 0x7FD2])"

definition hasLearningTask :: "TodoItem list \<Rightarrow> bool" where
  "hasLearningTask todos = list_ex mentionsLearning todos"

definition mentionsGitCommit :: "TodoItem \<Rightarrow> bool" where
  "mentionsGitCommit todo = includes_js (toLowerCase (content todo)) (js ''git commit'')"

definition learningTask :: TodoItem where
  "learningTask =
     \<lparr> content = js ''Capture learning insights and patterns'',
       activeForm = js ''Capturing learning insights and patterns'',
       status = pending \<rparr>"

definition addLearningCapture :: "TodoItem list \<Rightarrow> TodoItem list" where
  "addLearningCapture todos =
     (if hasLearningOpportunity todos then
        (if \<not> hasLearningTask todos then
           (let insertIndex = findIndex mentionsGitCommit todos in
            if insertIndex > - 1 then splice_insert todos (nat insertIndex) learningTask
            else push todos learningTask)
         else todos)
      else todos)"

text \<open>
  \<open>enhanceTodos\<close>, as a function from the caller's array to the returned array. The
  reference-level reading (the copy \<open>[...todos]\<close> and the in-place updates) follows in
  the section on the store.
\<close>

definition enhanceTodos :: "EnhancedTodoOptions \<Rightarrow> TodoItem list \<Rightarrow> TodoItem list" where
  "enhanceTodos this todos =
     (let enhancedTodos = todos;
          enhancedTodos =
            (if truthy (enforceGitCommit this) \<and> truthy (detectDocumentCreation this)
             then addGitCommitRule enhancedTodos else enhancedTodos);
          enhancedTodos =
            (if truthy (autoLearningCapture this)
             then addLearningCapture enhancedTodos else enhancedTodos)
      in enhancedTodos)"

record Validation =
  valid :: bool
  violations :: "jsstring list"

definition validateTodos :: "EnhancedTodoOptions \<Rightarrow> TodoItem list \<Rightarrow> Validation" where
  "validateTodos this todos =
     (let violations = [];
          violations =
            (if truthy (enforceGitCommit this) then
               (let hasDocCreation =
                      list_ex (matchesAny [ [0x6307, 0x793A, 0x66F8], js ''instruction'',
                                            js ''report'', [0x5831, 0x544A, 0x66F8] ]) todos;
                    hasGitCommit = list_ex mentionsGitCommit todos
                in if hasDocCreation \<and> \<not> hasGitCommit
                   then push violations
                          (js ''Document creation tasks must include git commit task'')
                   else violations)
             else violations);
          violations =
            (if truthy (autoLearningCapture this) then
               (let hasSignificantWork =
                      list_ex (matchesAny [ js ''implement'', js ''fix'', js ''design'',
                                            [0x5B9F, 0x88C5], [0x4FEE, 0x6B63],
                                            [0x8A2D, 0x8A08] ]) todos;
                    hasLearningCapture = list_ex mentionsLearning todos
                in if hasSignificantWork \<and> \<not> hasLearningCapture
                   then push violations
                          (js ''Significant work should include learning capture task'')
                   else violations)
             else violations)
      in \<lparr> valid = (length violations = 0), violations = violations \<rparr>)"

text \<open>\<open>autoFixTodos\<close>: the list is enhanced when validation fails (the warnings are not modelled).\<close>

definition autoFixTodos :: "EnhancedTodoOptions \<Rightarrow> TodoItem list \<Rightarrow> TodoItem list" where
  "autoFixTodos this todos =
     (let validation = validateTodos this todos
      in if \<not> valid validation then enhanceTodos this todos else todos)"

text \<open>Inputs of the examples: an item whose two texts are the given ASCII string.\<close>

definition todoItem :: "string \<Rightarrow> TodoItem" where
  "todoItem s = \<lparr> content = js s, activeForm = js s, status = pending \<rparr>"

text \<open>The item's content contains \<open>commit\<close>, case-insensitively.\<close>

definition mentionsCommitWord :: "TodoItem \<Rightarrow> bool" where
  "mentionsCommitWord todo = includes_js (toLowerCase (content todo)) (js ''commit'')"

text \<open>An item that is neither pending nor has its content as activeForm.\<close>

definition implementInProgress :: TodoItem where
  "implementInProgress =
     \<lparr> content = js ''Implement feature X'', activeForm = js ''Implementing feature X'',
       status = in_progress \<rparr>"

section \<open>Arrays as objects: the store\<close>

text \<open>
  A JavaScript array is an object: a parameter of type \<open>TodoItem[]\<close> is a reference, and
  \<open>push\<close> and \<open>splice\<close> update the array behind it. The store maps references to array
  contents; references below \<open>next_ref\<close> are allocated. The items themselves are never
  updated by this class, so they are kept as values.
\<close>

type_synonym ref = nat

record Store =
  arrays :: "ref \<Rightarrow> TodoItem list"
  next_ref :: ref

text \<open>\<open>[...todos]\<close>: a fresh array with the same items.\<close>

definition array_spread :: "ref \<Rightarrow> Store \<Rightarrow> ref \<times> Store" where
  "array_spread r s =
     (next_ref s,
      s\<lparr> arrays := (arrays s)(next_ref s := arrays s r), next_ref := Suc (next_ref s) \<rparr>)"

definition array_push :: "ref \<Rightarrow> TodoItem \<Rightarrow> Store \<Rightarrow> Store" where
  "array_push r x s = s\<lparr> arrays := (arrays s)(r := push (arrays s r) x) \<rparr>"

definition array_splice_insert :: "ref \<Rightarrow> nat \<Rightarrow> TodoItem \<Rightarrow> Store \<Rightarrow> Store" where
  "array_splice_insert r start x s =
     s\<lparr> arrays := (arrays s)(r := splice_insert (arrays s r) start x) \<rparr>"

definition addGitCommitRule_ref :: "ref \<Rightarrow> Store \<Rightarrow> ref \<times> Store" where
  "addGitCommitRule_ref todos s =
     (if hasDocumentCreation (arrays s todos) then
        (if \<not> hasGitCommit (arrays s todos) then (todos, array_push todos gitCommitTask s)
         else (todos, s))
      else (todos, s))"

definition addLearningCapture_ref :: "ref \<Rightarrow> Store \<Rightarrow> ref \<times> Store" where
  "addLearningCapture_ref todos s =
     (if hasLearningOpportunity (arrays s todos) then
        (if \<not> hasLearningTask (arrays s todos) then
           (let insertIndex = findIndex mentionsGitCommit (arrays s todos) in
            if insertIndex > - 1
            then (todos, array_splice_insert todos (nat insertIndex) learningTask s)
            else (todos, array_push todos learningTask s))
         else (todos, s))
      else (todos, s))"

definition enhanceTodos_ref :: "EnhancedTodoOptions \<Rightarrow> ref \<Rightarrow> Store \<Rightarrow> ref \<times> Store" where
  "enhanceTodos_ref this todos s =
     (let (enhancedTodos, s) = array_spread todos s;
          (enhancedTodos, s) =
            (if truthy (enforceGitCommit this) \<and> truthy (detectDocumentCreation this)
             then addGitCommitRule_ref enhancedTodos s else (enhancedTodos, s));
          (enhancedTodos, s) =
            (if truthy (autoLearningCapture this)
             then addLearningCapture_ref enhancedTodos s else (enhancedTodos, s))
      in (enhancedTodos, s))"

text \<open>A store for the examples: one allocated array, at reference 0.\<close>

definition exampleStore :: Store where
  "exampleStore =
     \<lparr> arrays = (\<lambda>r. if r = 0 then [todoItem ''Implement feature X''] else []),
       next_ref = 1 \<rparr>"

section \<open>File names of the coordination documents\<close>

text \<open>The character class \<open>\s\<close> of a JavaScript regular expression.\<close>

definition isWhiteSpace :: "16 word \<Rightarrow> bool" where
  "isWhiteSpace c =
     (c \<in> set [0x09, 0x0A, 0x0B, 0x0C, 0x0D, 0x20, 0xA0, 0x1680, 0x2028, 0x2029, 0x202F,
               0x205F, 0x3000, 0xFEFF]
      \<or> (0x2000 \<le> c \<and> c \<le> 0x200A))"

text \<open>The classes \<open>a-z\<close> and \<open>0-9\<close>.\<close>

definition isLowerAlnum :: "16 word \<Rightarrow> bool" where
  "isLowerAlnum c = ((0x61 \<le> c \<and> c \<le> 0x7A) \<or> (0x30 \<le> c \<and> c \<le> 0x39))"

text \<open>\<open>.replace(/[^a-z0-9\s]/g, '')\<close>: every code unit outside the class is deleted.\<close>

definition removeOtherUnits :: "jsstring \<Rightarrow> jsstring" where
  "removeOtherUnits s = filter (\<lambda>c. isLowerAlnum c \<or> isWhiteSpace c) s"

text \<open>
  \<open>.replace(/\s+/g, '_')\<close>: from left to right, every maximal run of white space is
  replaced by one underscore.
\<close>

function replaceWhiteSpaceRuns :: "jsstring \<Rightarrow> jsstring" where
  "replaceWhiteSpaceRuns [] = []"
| "replaceWhiteSpaceRuns (c # cs) =
     (if isWhiteSpace c then 0x5F # replaceWhiteSpaceRuns (dropWhile isWhiteSpace cs)
      else c # replaceWhiteSpaceRuns cs)"
  by pat_completeness auto
termination
  by (relation "measure length") (auto simp: length_dropWhile_le less_Suc_eq_le)

text \<open>
  \<open>s.substring(start, finish)\<close> for non-negative integers: both are clamped to the
  length and swapped when \<open>start > finish\<close>.
\<close>

definition substring :: "jsstring \<Rightarrow> nat \<Rightarrow> nat \<Rightarrow> jsstring" where
  "substring s start finish =
     (let a = min start (length s); b = min finish (length s)
      in take (max a b - min a b) (drop (min a b) s))"

definition sanitizeTaskName :: "jsstring \<Rightarrow> jsstring" where
  "sanitizeTaskName task =
     substring (replaceWhiteSpaceRuns (removeOtherUnits (toLowerCase task))) 0 30"

text \<open>
  The slug as the specification words it: the task lower-cased, every character other
  than a lowercase letter, a digit or white space removed, each run of white space
  collapsed to a single underscore, and the result cut to at most 30 characters. The
  collapse is written as a scan that remembers whether the previous character was white
  space.
\<close>

fun collapse_spec :: "bool \<Rightarrow> jsstring \<Rightarrow> jsstring" where
  "collapse_spec prev [] = []"
| "collapse_spec prev (c # cs) =
     (if isWhiteSpace c
      then (if prev then collapse_spec True cs else 0x5F # collapse_spec True cs)
      else c # collapse_spec False cs)"

definition slug_spec :: "jsstring \<Rightarrow> jsstring" where
  "slug_spec task =
     take 30 (collapse_spec False
       (filter (\<lambda>c. isLowerAlnum c \<or> isWhiteSpace c) (toLowerCase task)))"

text \<open>
  \<open>String.prototype.toUpperCase\<close> on the letters \<open>a\<close>..\<open>z\<close>. The program applies
  \<open>capitalize\<close> to role names only (\<open>claude\<close>, \<open>gemini\<close>, \<open>codex\<close>).
\<close>

definition toUpperCaseUnit :: "16 word \<Rightarrow> 16 word" where
  "toUpperCaseUnit c = (if 0x61 \<le> c \<and> c \<le> 0x7A then c - 0x20 else c)"

text \<open>\<open>str.charAt(0).toUpperCase() + str.slice(1)\<close>\<close>

definition capitalize :: "jsstring \<Rightarrow> jsstring" where
  "capitalize str = map toUpperCaseUnit (take 1 str) @ drop 1 str"

section \<open>Promises over the outside world\<close>

text \<open>
  A value that can be thrown or rejected with: \<open>undefined\<close>, \<open>null\<close>, or any other value,
  identified by its \<open>message\<close> property (absent on values that are not errors).
\<close>

datatype thrown = ThrownUndefined | ThrownNull | ThrownObject "jsstring optional"

text \<open>
  An asynchronous action runs on the state of the outside world (file system, clock,
  version control) and resolves with a value or rejects with a thrown value; the world
  it leaves behind is returned in both cases.
\<close>

type_synonym ('a, 'w) promise = "'w \<Rightarrow> (thrown + 'a) \<times> 'w"

definition resolve :: "'a \<Rightarrow> ('a, 'w) promise" where
  "resolve a w = (Inr a, w)"

definition reject :: "thrown \<Rightarrow> ('a, 'w) promise" where
  "reject e w = (Inl e, w)"

text \<open>\<open>const a = await m; k(a)\<close>: a rejection of \<open>m\<close> skips the rest.\<close>

definition await :: "('a, 'w) promise \<Rightarrow> ('a \<Rightarrow> ('b, 'w) promise) \<Rightarrow> ('b, 'w) promise" where
  "await m k w = (case m w of (Inl e, w') \<Rightarrow> (Inl e, w') | (Inr a, w') \<Rightarrow> k a w')"

text \<open>\<open>try { m } catch (error) { h(error) }\<close>\<close>

definition try_catch :: "('a, 'w) promise \<Rightarrow> (thrown \<Rightarrow> ('a, 'w) promise) \<Rightarrow> ('a, 'w) promise" where
  "try_catch m h w = (case m w of (Inl e, w') \<Rightarrow> h e w' | (Inr a, w') \<Rightarrow> (Inr a, w'))"

text \<open>
  \<open>error.message\<close>: reading a property of \<open>undefined\<close> or \<open>null\<close> throws a TypeError (its
  message text is the engine's); a value without the property yields \<open>undefined\<close>.
\<close>

definition nullishAccess :: thrown where
  "nullishAccess = ThrownObject (Given (js ''TypeError: Cannot read properties of nullish''))"

fun message_of :: "thrown \<Rightarrow> thrown + jsstring optional" where
  "message_of ThrownUndefined = Inl nullishAccess"
| "message_of ThrownNull = Inl nullishAccess"
| "message_of (ThrownObject m) = Inr (case m of Absent \<Rightarrow> Undefined | v \<Rightarrow> v)"

text \<open>A value inside a template literal.\<close>

fun interpolate :: "jsstring optional \<Rightarrow> jsstring" where
  "interpolate (Given s) = s"
| "interpolate Undefined = js ''undefined''"
| "interpolate Absent = js ''undefined''"

section \<open>Coordination documents (classes InstructionManager and ReportManager)\<close>

datatype AiRole = claude | gemini | codex

fun roleName :: "AiRole \<Rightarrow> jsstring" where
  "roleName claude = js ''claude''"
| "roleName gemini = js ''gemini''"
| "roleName codex = js ''codex''"

datatype Priority = high | medium | low

record InstructionRequest =
  to_role :: AiRole
  from_role :: AiRole
  task :: jsstring
  priority :: Priority
  deadline :: "jsstring optional"
  context_text :: "jsstring optional"
  requirements :: "jsstring list optional"
  acceptanceCriteria :: "jsstring list optional"

datatype ReportStatus = report_completed | report_in_progress | report_blocked

fun statusName :: "ReportStatus \<Rightarrow> jsstring" where
  "statusName report_completed = js ''completed''"
| "statusName report_in_progress = js ''in_progress''"
| "statusName report_blocked = js ''blocked''"

text \<open>\<open>ReportData\<close>; the \<open>metrics\<close> dictionary only feeds the document body and is left out.\<close>

record ReportData =
  report_from :: AiRole
  report_to :: AiRole
  report_task :: jsstring
  report_status :: ReportStatus
  completedItems :: "jsstring list optional"
  inProgressItems :: "jsstring list optional"
  blockedItems :: "jsstring list optional"
  changedFiles :: "jsstring list optional"
  learnings :: "jsstring list optional"
  nextActions :: "jsstring list optional"
  report_notes :: "jsstring optional"

text \<open>
  A path is its sequence of segments; \<open>join(p, a, b)\<close> appends segments. The platform
  (Node's \<open>fs\<close>, the clock, \<open>execSync\<close>) and the literal document bodies are parameters:
  \<^item> \<open>fs_mkdir\<close> is \<open>fs.mkdir(path, {recursive: true})\<close> and \<open>fs_writeFile\<close> is
    \<open>fs.writeFile(path, content, 'utf-8')\<close>;
  \<^item> \<open>generateTimestamp\<close> is the clock reading formatted as \<open>YYYYMMDDHHmm\<close>, and
    \<open>isoTimestamp\<close> the one derived from \<open>toISOString()\<close>;
  \<^item> \<open>execSync\<close> runs a shell command in a working directory;
  \<^item> \<open>initializeFddWorkflow\<close> is the method of class \<open>FddWorkflowManager\<close>;
  \<^item> the remaining fields render the templates of the documents.
\<close>

type_synonym path = "jsstring list"

definition join :: "path \<Rightarrow> jsstring list \<Rightarrow> path" where
  "join p segments = p @ segments"

record WorkResult =
  files :: "jsstring list optional"
  insights :: "jsstring optional"
  challenges :: "jsstring optional"
  solutions :: "jsstring optional"

datatype WorkflowPhase =
  requirements_phase | design_phase | tasks_phase | implementation_phase | quality_phase

fun phaseName :: "WorkflowPhase \<Rightarrow> jsstring" where
  "phaseName requirements_phase = js ''requirements''"
| "phaseName design_phase = js ''design''"
| "phaseName tasks_phase = js ''tasks''"
| "phaseName implementation_phase = js ''implementation''"
| "phaseName quality_phase = js ''quality''"

record WorkflowContext =
  projectRoot :: path
  currentPhase :: WorkflowPhase
  featureName :: jsstring
  aiRole :: AiRole
  enableFdd :: "bool optional"

record 'w Platform =
  fs_mkdir :: "path \<Rightarrow> (unit, 'w) promise"
  fs_writeFile :: "path \<Rightarrow> jsstring \<Rightarrow> (unit, 'w) promise"
  generateTimestamp :: "'w \<Rightarrow> jsstring"
  isoTimestamp :: "'w \<Rightarrow> jsstring"
  execSync :: "jsstring \<Rightarrow> path \<Rightarrow> (unit, 'w) promise"
  initializeFddWorkflow :: "jsstring \<Rightarrow> (unit, 'w) promise"
  generateInstructionContent :: "InstructionRequest \<Rightarrow> jsstring \<Rightarrow> jsstring"
  generateReportContent :: "ReportData \<Rightarrow> jsstring \<Rightarrow> jsstring"
  learningContent :: "WorkflowContext \<Rightarrow> WorkResult option \<Rightarrow> jsstring \<Rightarrow> jsstring"
  commitMessage :: "WorkflowContext \<Rightarrow> WorkResult option \<Rightarrow> jsstring"

text \<open>
  \<open>InstructionManager.createInstruction\<close>; \<open>docsPath\<close> is \<open>join(projectRoot, 'docs')\<close>, set by
  the constructor. The request is used as it comes: no field is checked.
\<close>

definition instructionFileName :: "InstructionRequest \<Rightarrow> jsstring \<Rightarrow> jsstring" where
  "instructionFileName request timestamp =
     roleName (from_role request) @ js ''_to_'' @ roleName (to_role request) @ js ''_'' @
     timestamp @ js ''_'' @ sanitizeTaskName (task request) @ js ''.md''"

definition createInstruction ::
  "'w Platform \<Rightarrow> path \<Rightarrow> InstructionRequest \<Rightarrow> (path, 'w) promise" where
  "createInstruction os docsPath request w =
     (let timestamp = generateTimestamp os w;
          fileName = instructionFileName request timestamp;
          instructionPath =
            join docsPath [js ''instructions'', js ''To'' @ capitalize (roleName (to_role request)),
                           fileName]
      in await (fs_mkdir os (join docsPath
                  [js ''instructions'', js ''To'' @ capitalize (roleName (to_role request))]))
           (\<lambda>_. let content = generateInstructionContent os request timestamp
                in await (fs_writeFile os instructionPath content)
                     (\<lambda>_. resolve instructionPath)) w)"

definition reportFileName :: "ReportData \<Rightarrow> jsstring \<Rightarrow> jsstring" where
  "reportFileName data timestamp =
     roleName (report_from data) @ js ''_from_'' @ statusName (report_status data) @ js ''_'' @
     timestamp @ js ''_'' @ sanitizeTaskName (report_task data) @ js ''.md''"

definition createReport :: "'w Platform \<Rightarrow> path \<Rightarrow> ReportData \<Rightarrow> (path, 'w) promise" where
  "createReport os docsPath data w =
     (let timestamp = generateTimestamp os w;
          fileName = reportFileName data timestamp;
          reportPath =
            join docsPath [js ''reports'', js ''From'' @ capitalize (roleName (report_from data)),
                           fileName]
      in await (fs_mkdir os (join docsPath
                  [js ''reports'', js ''From'' @ capitalize (roleName (report_from data))]))
           (\<lambda>_. let content = generateReportContent os data timestamp
                in await (fs_writeFile os reportPath content)
                     (\<lambda>_. resolve reportPath)) w)"

section \<open>Workflow orchestrator (class CoreWorkflowEnhancer)\<close>

text \<open>
  The constructor hands \<open>projectRoot\<close> to both document managers, whose \<open>docsPath\<close> is
  \<open>join(projectRoot, 'docs')\<close>; \<open>this\<close> below is that project root. Console output is not
  modelled.
\<close>

definition docsPath :: "path \<Rightarrow> path" where
  "docsPath this = join this [js ''docs'']"

definition phaseInstruction ::
  "AiRole \<Rightarrow> AiRole \<Rightarrow> jsstring \<Rightarrow> jsstring \<Rightarrow> jsstring list \<Rightarrow> InstructionRequest" where
  "phaseInstruction sender receiver t c rs =
     \<lparr> to_role = receiver, from_role = sender, task = t, priority = high, deadline = Absent,
       context_text = Given c, requirements = Given rs, acceptanceCriteria = Absent \<rparr>"

text \<open>\<open>phaseInstructions[context.currentPhase] || null\<close>: every phase has an entry.\<close>

fun generatePhaseInstruction :: "WorkflowContext \<Rightarrow> InstructionRequest option" where
  "generatePhaseInstruction context =
     (case currentPhase context of
        requirements_phase \<Rightarrow>
          Some (phaseInstruction claude gemini
            (js ''Requirements analysis for '' @ featureName context)
            (js ''Analyze and validate requirements for implementation readiness'')
            [js ''Review requirements for completeness'', js ''Identify technical constraints'',
             js ''Prepare for design phase''])
      | design_phase \<Rightarrow>
          Some (phaseInstruction claude gemini
            (js ''Technical design for '' @ featureName context)
            (js ''Create detailed technical design based on approved requirements'')
            [js ''Design system architecture'', js ''Define API contracts'',
             js ''Plan implementation approach''])
      | implementation_phase \<Rightarrow>
          Some (phaseInstruction claude gemini
            (js ''Implementation of '' @ featureName context)
            (js ''Implement feature according to approved design'')
            [js ''Follow design specifications'', js ''Write comprehensive tests'',
             js ''Document implementation decisions''])
      | tasks_phase \<Rightarrow>
          Some (phaseInstruction claude gemini
            (js ''Task planning for '' @ featureName context)
            (js ''Create detailed implementation tasks based on approved design'')
            [js ''Break down design into actionable tasks'',
             js ''Estimate effort and dependencies'', js ''Prepare for implementation phase''])
      | quality_phase \<Rightarrow>
          Some (phaseInstruction gemini codex
            (js ''Quality assessment for '' @ featureName context)
            (js ''Perform comprehensive quality checks on implementation'')
            [js ''Run all quality gates'', js ''Verify requirements traceability'',
             js ''Validate performance benchmarks'']))"

text \<open>
  \<open>preWorkflowSetup\<close>: the instruction of the phase is written, the FDD workflow is
  initialised for the design phase when enabled; the phase-specific setup methods that
  follow only write to the console.
\<close>

definition preWorkflowSetup :: "'w Platform \<Rightarrow> path \<Rightarrow> WorkflowContext \<Rightarrow> (unit, 'w) promise" where
  "preWorkflowSetup os this context =
     await (case generatePhaseInstruction context of
              Some instruction \<Rightarrow>
                await (createInstruction os (docsPath this) instruction) (\<lambda>_. resolve ())
            | None \<Rightarrow> resolve ())
       (\<lambda>_. await (if truthy (enableFdd context) \<and> currentPhase context = design_phase
                   then initializeFddWorkflow os (featureName context) else resolve ())
          (\<lambda>_. resolve ()))"

text \<open>\<open>result?.files || []\<close>\<close>

fun filesOf :: "WorkResult option \<Rightarrow> jsstring list" where
  "filesOf None = []"
| "filesOf (Some result) = (case files result of Given fs \<Rightarrow> fs | _ \<Rightarrow> [])"

definition phaseReport ::
  "WorkflowContext \<Rightarrow> WorkResult option \<Rightarrow> AiRole \<Rightarrow> AiRole \<Rightarrow> jsstring list \<Rightarrow>
   jsstring list \<Rightarrow> ReportData" where
  "phaseReport context result sender receiver done next =
     \<lparr> report_from = sender, report_to = receiver,
       report_task = phaseName (currentPhase context) @ js '' phase for '' @ featureName context,
       report_status = report_completed,
       completedItems = Given done, inProgressItems = Absent, blockedItems = Absent,
       changedFiles = Given (filesOf result), learnings = Absent, nextActions = Given next,
       report_notes = Absent \<rparr>"

fun generatePhaseReport :: "WorkflowContext \<Rightarrow> WorkResult option \<Rightarrow> ReportData option" where
  "generatePhaseReport context result =
     (let coordinatorReport =
            phaseReport context result claude gemini
              [phaseName (currentPhase context) @ js '' phase completed successfully'']
              [js ''Proceed to next phase'', js ''Review and approve output'']
      in case currentPhase context of
           requirements_phase \<Rightarrow> Some coordinatorReport
         | design_phase \<Rightarrow> Some coordinatorReport
         | tasks_phase \<Rightarrow> Some coordinatorReport
         | implementation_phase \<Rightarrow>
             Some (phaseReport context result gemini codex
               [js ''Implementation completed'', js ''Tests written'',
                js ''Documentation updated'']
               [js ''Quality assessment required'', js ''Run all quality gates''])
         | quality_phase \<Rightarrow>
             Some (phaseReport context result codex claude
               [js ''Quality gates executed'', js ''Results analyzed'']
               [js ''Review quality results'', js ''Approve for deployment'']))"

text \<open>\<open>result?.insights || result?.challenges || result?.solutions\<close>, as a condition.\<close>

fun nonEmptyText :: "jsstring optional \<Rightarrow> bool" where
  "nonEmptyText (Given s) = (s \<noteq> [])"
| "nonEmptyText Undefined = False"
| "nonEmptyText Absent = False"

fun hasInsights :: "WorkResult option \<Rightarrow> bool" where
  "hasInsights None = False"
| "hasInsights (Some result) =
     (nonEmptyText (insights result) \<or> nonEmptyText (challenges result) \<or>
      nonEmptyText (solutions result))"

definition captureLearningInsights ::
  "'w Platform \<Rightarrow> WorkflowContext \<Rightarrow> WorkResult option \<Rightarrow> (unit, 'w) promise" where
  "captureLearningInsights os context result w =
     (if hasInsights result then
        (let timestamp = isoTimestamp os w;
             learningPath =
               join (projectRoot context)
                 [js ''docs'', js ''handover'', js ''learnings'', js ''technical''];
             learningFile =
               join learningPath
                 [js ''Learning_'' @ timestamp @ js ''_'' @ phaseName (currentPhase context) @
                  js ''_'' @ featureName context @ js ''.md'']
         in await (fs_mkdir os learningPath)
              (\<lambda>_. fs_writeFile os learningFile (learningContent os context result timestamp)) w)
      else resolve () w)"

text \<open>
  \<open>autoGitCommit\<close>: every \<open>git add\<close> has its own \<open>try\<close>/\<open>catch\<close>, and the whole body is
  inside one more, so nothing is rejected; a failing \<open>git commit\<close> only leaves its world.
\<close>

fun gitAddEach :: "'w Platform \<Rightarrow> path \<Rightarrow> jsstring list \<Rightarrow> 'w \<Rightarrow> 'w" where
  "gitAddEach os cwd [] w = w"
| "gitAddEach os cwd (file # rest) w =
     gitAddEach os cwd rest (snd (execSync os (js ''git add '' @ [0x22] @ file @ [0x22]) cwd w))"

definition autoGitCommit ::
  "'w Platform \<Rightarrow> WorkflowContext \<Rightarrow> WorkResult option \<Rightarrow> (unit, 'w) promise" where
  "autoGitCommit os context result w =
     (let filesToCommit =
            filesOf result @
            [js ''docs/instructions/'', js ''docs/reports/'', js ''docs/handover/learnings/''];
          w = gitAddEach os (projectRoot context) filesToCommit w;
          w = snd (execSync os
                (js ''git commit -m '' @ [0x22] @ commitMessage os context result @ [0x22])
                (projectRoot context) w)
      in (Inr (), w))"

definition postWorkflowCleanup ::
  "'w Platform \<Rightarrow> path \<Rightarrow> WorkflowContext \<Rightarrow> WorkResult option \<Rightarrow> (unit, 'w) promise" where
  "postWorkflowCleanup os this context result =
     await (case generatePhaseReport context result of
              Some report \<Rightarrow> await (createReport os (docsPath this) report) (\<lambda>_. resolve ())
            | None \<Rightarrow> resolve ())
       (\<lambda>_. await (captureLearningInsights os context result)
          (\<lambda>_. autoGitCommit os context result))"

definition errorReport :: "WorkflowContext \<Rightarrow> jsstring optional \<Rightarrow> ReportData" where
  "errorReport context message =
     \<lparr> report_from = aiRole context, report_to = claude,
       report_task = phaseName (currentPhase context) @ js '' phase for '' @ featureName context,
       report_status = report_blocked,
       completedItems = Absent, inProgressItems = Absent,
       blockedItems =
         Given [js ''Error in '' @ phaseName (currentPhase context) @ js '' phase: '' @
                interpolate message],
       changedFiles = Absent, learnings = Absent,
       nextActions =
         Given [js ''Review error details'', js ''Apply fixes'', js ''Retry phase execution''],
       report_notes = Given (js ''Workflow error occurred during enhanced cc-sdd execution'') \<rparr>"

text \<open>
  \<open>handleWorkflowError\<close>: \<open>error.message\<close> is read first (for the console), then the blocked
  report is written with \<open>await this.reportManager.createReport(errorReport)\<close>. There is
  no \<open>try\<close> around either.
\<close>

definition handleWorkflowError ::
  "'w Platform \<Rightarrow> path \<Rightarrow> WorkflowContext \<Rightarrow> thrown \<Rightarrow> (unit, 'w) promise" where
  "handleWorkflowError os this context error =
     (case message_of error of
        Inl typeError \<Rightarrow> reject typeError
      | Inr message \<Rightarrow>
          await (createReport os (docsPath this) (errorReport context message))
            (\<lambda>_. resolve ()))"

definition enhanceSpecWorkflow ::
  "'w Platform \<Rightarrow> path \<Rightarrow> (WorkResult option, 'w) promise \<Rightarrow> WorkflowContext \<Rightarrow>
   (WorkResult option, 'w) promise" where
  "enhanceSpecWorkflow os this originalWorkflow context =
     try_catch
       (await (preWorkflowSetup os this context)
          (\<lambda>_. await originalWorkflow
             (\<lambda>result. await (postWorkflowCleanup os this context result)
                (\<lambda>_. resolve result))))
       (\<lambda>error. await (handleWorkflowError os this context error)
          (\<lambda>_. reject error))"

text \<open>
  A platform for the examples: a disk that accepts a bounded number of file writes and
  rejects the next one; directories and shell commands always succeed.
\<close>

record Disk =
  written :: "(path \<times> jsstring) list"
  quota :: nat

definition diskFull :: thrown where
  "diskFull = ThrownObject (Given (js ''ENOSPC: no space left on device''))"

definition diskPlatform :: "Disk Platform" where
  "diskPlatform =
     \<lparr> fs_mkdir = (\<lambda>p. resolve ()),
       fs_writeFile = (\<lambda>p c d.
          if quota d = 0 then (Inl diskFull, d)
          else (Inr (), d\<lparr> written := written d @ [(p, c)], quota := quota d - 1 \<rparr>)),
       generateTimestamp = (\<lambda>d. js ''202401011200''),
       isoTimestamp = (\<lambda>d. js ''20240101T120000''),
       execSync = (\<lambda>command cwd. resolve ()),
       initializeFddWorkflow = (\<lambda>feature. resolve ()),
       generateInstructionContent = (\<lambda>request timestamp. task request),
       generateReportContent = (\<lambda>data timestamp. report_task data),
       learningContent = (\<lambda>context result timestamp. []),
       commitMessage = (\<lambda>context result. []) \<rparr>"

text \<open>Inputs of the examples.\<close>

definition emptyTaskRequest :: InstructionRequest where
  "emptyTaskRequest =
     \<lparr> to_role = gemini, from_role = claude, task = [], priority = high, deadline = Absent,
       context_text = Absent, requirements = Absent, acceptanceCriteria = Absent \<rparr>"

definition exampleContext :: WorkflowContext where
  "exampleContext =
     \<lparr> projectRoot = [], currentPhase = requirements_phase, featureName = js ''auth'',
       aiRole = gemini, enableFdd = Absent \<rparr>"

definition boom :: thrown where
  "boom = ThrownObject (Given (js ''boom''))"

section \<open>Frontend-driven development phases (class FDDWorkflowManager)\<close>

datatype UiFramework = react | vue | angular | svelte | vanilla

record FDDConfig =
  enableMockups :: "bool optional"
  enablePrototyping :: "bool optional"
  enableUserTesting :: "bool optional"
  uiFramework :: "UiFramework optional"
  designSystem :: "jsstring optional"

text \<open>The constructor: the defaults overridden by the argument; \<open>designSystem\<close> has no default.\<close>

definition FDDWorkflowManager :: "FDDConfig \<Rightarrow> FDDConfig" where
  "FDDWorkflowManager config =
     \<lparr> enableMockups = spread_over True (enableMockups config),
       enablePrototyping = spread_over True (enablePrototyping config),
       enableUserTesting = spread_over False (enableUserTesting config),
       uiFramework = spread_over react (uiFramework config),
       designSystem = designSystem config \<rparr>"

datatype FDDPhaseName = ui_mockup | prototype | user_test | implementation | integration

record FDDPhase =
  name :: FDDPhaseName
  description :: jsstring
  deliverables :: "jsstring list"
  nextPhase :: "jsstring optional"

definition generateFDDWorkflow :: "FDDConfig \<Rightarrow> jsstring \<Rightarrow> FDDPhase list" where
  "generateFDDWorkflow this feature =
     (let phases =
            [ \<lparr> name = ui_mockup,
                description = js ''Create UI mockups and wireframes based on user requirements'',
                deliverables =
                  [js ''Wireframe designs'', js ''UI component breakdown'',
                   js ''User interaction flows'', js ''Design system components''],
                nextPhase = Given (js ''prototype'') \<rparr>,
              \<lparr> name = prototype,
                description = js ''Build interactive prototype for user validation'',
                deliverables =
                  [js ''Interactive prototype'', js ''Component library'',
                   js ''User interaction demos'', js ''Technical feasibility analysis''],
                nextPhase =
                  Given (if truthy (enableUserTesting this) then js ''user-test''
                         else js ''implementation'') \<rparr> ];
          phases =
            (if truthy (enableUserTesting this) then
               push phases
                 \<lparr> name = user_test,
                   description = js ''Conduct user testing and gather feedback'',
                   deliverables =
                     [js ''User testing results'', js ''Feedback analysis'',
                      js ''UI improvement recommendations'', js ''Validated user flows''],
                   nextPhase = Given (js ''implementation'') \<rparr>
             else phases);
          phases =
            push phases
              \<lparr> name = implementation,
                description =
                  js ''Implement production-ready components based on validated designs'',
                deliverables =
                  [js ''Production components'', js ''Unit tests'', js ''Integration tests'',
                   js ''Component documentation''],
                nextPhase = Given (js ''integration'') \<rparr>;
          phases =
            push phases
              \<lparr> name = integration,
                description = js ''Integrate components into main application'',
                deliverables =
                  [js ''Integrated feature'', js ''E2E tests'', js ''Performance benchmarks'',
                   js ''Deployment documentation''],
                nextPhase = Absent \<rparr>
      in phases)"

text \<open>The rendering of a phase name, as \<open>nextPhase\<close> stores it.\<close>

fun fddPhaseText :: "FDDPhaseName \<Rightarrow> jsstring" where
  "fddPhaseText ui_mockup = js ''ui-mockup''"
| "fddPhaseText prototype = js ''prototype''"
| "fddPhaseText user_test = js ''user-test''"
| "fddPhaseText implementation = js ''implementation''"
| "fddPhaseText integration = js ''integration''"

section \<open>Facts about strings and arrays\<close>

lemma startsWith_iff: "startsWith s k \<longleftrightarrow> (\<exists>q. s = k @ q)"
  by (induction s k rule: startsWith.induct) auto

text \<open>\<open>includes\<close> holds exactly when the search string is a contiguous part of the string.\<close>

lemma includes_js_iff: "includes_js s k \<longleftrightarrow> (\<exists>p q. s = p @ k @ q)"
proof (induction s)
  case Nil
  then show ?case by auto
next
  case (Cons c cs)
  show ?case
  proof
    assume "includes_js (c # cs) k"
    then consider "startsWith (c # cs) k" | "includes_js cs k" by auto
    then show "\<exists>p q. c # cs = p @ k @ q"
    proof cases
      case 1
      then obtain q where "c # cs = k @ q" by (auto simp: startsWith_iff)
      then have "c # cs = [] @ k @ q" by simp
      then show ?thesis by blast
    next
      case 2
      then obtain p q where "cs = p @ k @ q" using Cons.IH by auto
      then have "c # cs = (c # p) @ k @ q" by simp
      then show ?thesis by blast
    qed
  next
    assume "\<exists>p q. c # cs = p @ k @ q"
    then obtain p q where pq: "c # cs = p @ k @ q" by blast
    show "includes_js (c # cs) k"
    proof (cases p)
      case Nil
      then have "startsWith (c # cs) k" using pq by (auto simp: startsWith_iff)
      then show ?thesis by simp
    next
      case (Cons a p')
      then have "cs = p' @ k @ q" using pq by simp
      then have "includes_js cs k" using Cons.IH by blast
      then show ?thesis by simp
    qed
  qed
qed

lemma includes_js_suffix_of_needle: "includes_js s (a @ b) \<Longrightarrow> includes_js s b"
proof -
  assume "includes_js s (a @ b)"
  then obtain p q where "s = p @ (a @ b) @ q" by (auto simp: includes_js_iff)
  then have "s = (p @ a) @ b @ q" by simp
  then show ?thesis unfolding includes_js_iff by blast
qed

lemma findIndex_none: "\<not> list_ex P xs \<Longrightarrow> findIndex P xs = - 1"
  by (induction xs) (auto simp: Let_def)

lemma findIndex_first:
  "list_ex P xs \<Longrightarrow> findIndex P xs = int (length (takeWhile (\<lambda>x. \<not> P x) xs))"
  by (induction xs) (auto simp: Let_def)

lemma findIndex_append_first:
  "\<not> list_ex P xs \<Longrightarrow> P y \<Longrightarrow> findIndex P (xs @ y # ys) = int (length xs)"
  by (induction xs) (auto simp: Let_def)

lemma splice_insert_first:
  "splice_insert xs (length (takeWhile Q xs)) x = takeWhile Q xs @ x # dropWhile Q xs"
  by (simp add: splice_insert_def takeWhile_eq_take[symmetric] dropWhile_eq_drop[symmetric])

lemma length_splice_insert: "length (splice_insert xs i x) = Suc (length xs)"
proof -
  have "length (take i xs @ drop i xs) = length xs" by (simp only: append_take_drop_id)
  then show ?thesis by (simp add: splice_insert_def)
qed

lemma subseq_push: "subseq xs (push xs x)"
  by (simp add: push_def prefix_imp_subseq)

lemma subseq_splice_insert: "subseq xs (splice_insert xs i x)"
proof -
  have "subseq (drop i xs) (x # drop i xs)"
    by (simp add: suffix_imp_subseq suffix_ConsI)
  then have "subseq (take i xs @ drop i xs) (take i xs @ x # drop i xs)"
    by (simp only: subseq_append')
  then show ?thesis by (simp add: splice_insert_def)
qed

section \<open>The todo rule engine\<close>

lemma gitCommitTask_facts:
  "mentionsCommit gitCommitTask" "mentionsGitCommit gitCommitTask"
  "\<not> mentionsLearning gitCommitTask" "\<not> matchesAny learningTriggers gitCommitTask"
  "\<not> matchesAny documentKeywords gitCommitTask"
  by code_simp+

lemma mentionsCommit_iff: "mentionsCommit t \<longleftrightarrow> mentionsCommitWord t"
proof -
  have "js ''git commit'' = js ''git '' @ js ''commit''" by (simp add: js_def)
  then have "includes_js s (js ''git commit'') \<Longrightarrow> includes_js s (js ''commit'')" for s
    using includes_js_suffix_of_needle by metis
  then show ?thesis by (auto simp: mentionsCommit_def mentionsCommitWord_def)
qed

lemma mentionsGitCommit_imp: "mentionsGitCommit t \<Longrightarrow> mentionsCommit t"
  by (simp add: mentionsGitCommit_def mentionsCommit_def)

lemma instruction_doc_is_document:
  "content t = js ''Create instruction doc'' \<Longrightarrow> matchesAny documentKeywords t"
  by (simp add: matchesAny_def documentKeywords_def js_def toLowerCase_def toLowerCaseUnit_def)

lemma addLearningCapture_shape:
  "addLearningCapture todos =
     (if hasLearningOpportunity todos \<and> \<not> hasLearningTask todos then
        (if list_ex mentionsGitCommit todos
         then takeWhile (\<lambda>t. \<not> mentionsGitCommit t) todos @ learningTask #
              dropWhile (\<lambda>t. \<not> mentionsGitCommit t) todos
         else todos @ [learningTask])
      else todos)"
  by (simp add: addLearningCapture_def Let_def findIndex_none findIndex_first
        splice_insert_first push_def)

lemma subseq_addGitCommitRule: "subseq todos (addGitCommitRule todos)"
  by (simp add: addGitCommitRule_def subseq_push)

lemma subseq_addLearningCapture: "subseq todos (addLearningCapture todos)"
  by (simp add: addLearningCapture_def Let_def subseq_push subseq_splice_insert)

lemma length_addGitCommitRule:
  "length todos \<le> length (addGitCommitRule todos) \<and>
   length (addGitCommitRule todos) \<le> length todos + 1"
  by (simp add: addGitCommitRule_def push_def)

lemma length_addLearningCapture:
  "length todos \<le> length (addLearningCapture todos) \<and>
   length (addLearningCapture todos) \<le> length todos + 1"
  by (simp add: addLearningCapture_def Let_def push_def length_splice_insert)

lemma learningTask_facts:
  "\<not> mentionsCommit learningTask" "\<not> mentionsGitCommit learningTask"
  "mentionsLearning learningTask" "\<not> matchesAny learningTriggers learningTask"
  "matchesAny documentKeywords learningTask"
  by code_simp+

lemma list_ex_splice_insert:
  "list_ex P (splice_insert xs i x) \<longleftrightarrow> P x \<or> list_ex P xs"
proof -
  have "list_ex P (take i xs @ drop i xs) = list_ex P xs" by (simp only: append_take_drop_id)
  then have "list_ex P xs \<longleftrightarrow> list_ex P (take i xs) \<or> list_ex P (drop i xs)"
    by (simp only: list_ex_append)
  then show ?thesis by (auto simp: splice_insert_def)
qed

lemma list_ex_push: "list_ex P (push xs x) \<longleftrightarrow> P x \<or> list_ex P xs"
  by (auto simp: push_def)

text \<open>What the two rules do to the four conditions they test.\<close>

lemma addGitCommitRule_conditions:
  "hasLearningOpportunity (addGitCommitRule L) = hasLearningOpportunity L"
  "hasLearningTask (addGitCommitRule L) = hasLearningTask L"
  "hasDocumentCreation (addGitCommitRule L) = hasDocumentCreation L"
  "hasDocumentCreation L \<Longrightarrow> hasGitCommit (addGitCommitRule L)"
  "hasGitCommit L \<Longrightarrow> hasGitCommit (addGitCommitRule L)"
  by (auto simp: addGitCommitRule_def hasLearningOpportunity_def hasLearningTask_def
        hasDocumentCreation_def hasGitCommit_def list_ex_push gitCommitTask_facts)

lemma addLearningCapture_conditions:
  "hasLearningOpportunity (addLearningCapture L) = hasLearningOpportunity L"
  "hasGitCommit (addLearningCapture L) = hasGitCommit L"
  "hasLearningOpportunity L \<Longrightarrow> hasLearningTask (addLearningCapture L)"
  "hasLearningTask L \<Longrightarrow> hasLearningTask (addLearningCapture L)"
  by (auto simp: addLearningCapture_def Let_def hasLearningOpportunity_def hasLearningTask_def
        hasGitCommit_def list_ex_push list_ex_splice_insert learningTask_facts)

lemma enhanceTodos_default:
  "enhanceTodos defaultEnhancer L = addLearningCapture (addGitCommitRule L)"
  by (simp add: enhanceTodos_def defaultEnhancer_def TodoEnhancer_def)

text \<open>A list on which neither rule fires is returned as it is.\<close>

lemma enhanceTodos_settled:
  "(\<not> hasDocumentCreation L \<or> hasGitCommit L) \<Longrightarrow>
   (\<not> hasLearningOpportunity L \<or> hasLearningTask L) \<Longrightarrow>
   enhanceTodos defaultEnhancer L = L"
  by (auto simp: enhanceTodos_default addGitCommitRule_def addLearningCapture_def)

text \<open>
  After the first run the learning-capture rule never fires again; after the second run
  the commit rule does not fire either. So the list is stable from the second run on.
\<close>

lemma enhanceTodos_learning_settled:
  "\<not> hasLearningOpportunity (enhanceTodos defaultEnhancer L) \<or>
   hasLearningTask (enhanceTodos defaultEnhancer L)"
  using addLearningCapture_conditions(1,3) [of "addGitCommitRule L"]
  by (auto simp: enhanceTodos_default)

lemma enhanceTodos_second_run:
  "enhanceTodos defaultEnhancer (enhanceTodos defaultEnhancer L)
     = addGitCommitRule (enhanceTodos defaultEnhancer L)"
proof -
  let ?M = "enhanceTodos defaultEnhancer L"
  have "\<not> hasLearningOpportunity (addGitCommitRule ?M) \<or> hasLearningTask (addGitCommitRule ?M)"
    using enhanceTodos_learning_settled [of L] by (simp add: addGitCommitRule_conditions)
  then have "addLearningCapture (addGitCommitRule ?M) = addGitCommitRule ?M"
    by (auto simp: addLearningCapture_def)
  then show ?thesis by (simp add: enhanceTodos_default)
qed

lemma enhanceTodos_stable_from_second_run:
  "enhanceTodos defaultEnhancer
     (enhanceTodos defaultEnhancer (enhanceTodos defaultEnhancer L))
   = enhanceTodos defaultEnhancer (enhanceTodos defaultEnhancer L)"
proof -
  let ?M = "enhanceTodos defaultEnhancer L"
  let ?N = "addGitCommitRule ?M"
  have c: "\<not> hasDocumentCreation ?N \<or> hasGitCommit ?N"
    using addGitCommitRule_conditions(3,4) [of ?M] by auto
  have l: "\<not> hasLearningOpportunity ?N \<or> hasLearningTask ?N"
    using enhanceTodos_learning_settled [of L] by (simp add: addGitCommitRule_conditions)
  show ?thesis
    using enhanceTodos_settled [OF c l] by (simp add: enhanceTodos_second_run)
qed

text \<open>
  Validation of an enhanced list succeeds for every list in which a commit is only ever
  mentioned as \<open>git commit\<close>.
\<close>

lemma list_ex_addGitCommitRule:
  "list_ex P (addGitCommitRule L) \<longleftrightarrow>
     list_ex P L \<or> (P gitCommitTask \<and> hasDocumentCreation L \<and> \<not> hasGitCommit L)"
  by (auto simp: addGitCommitRule_def list_ex_push)

lemma list_ex_addLearningCapture:
  "list_ex P (addLearningCapture L) \<longleftrightarrow>
     list_ex P L \<or> (P learningTask \<and> hasLearningOpportunity L \<and> \<not> hasLearningTask L)"
  by (auto simp: addLearningCapture_def Let_def list_ex_push list_ex_splice_insert)

lemma validateTodos_valid_iff:
  "valid (validateTodos defaultEnhancer M) \<longleftrightarrow>
     \<not> (list_ex (matchesAny [ [0x6307, 0x793A, 0x66F8], js ''instruction'', js ''report'',
                              [0x5831, 0x544A, 0x66F8] ]) M \<and>
        \<not> list_ex mentionsGitCommit M) \<and>
     \<not> (list_ex (matchesAny [ js ''implement'', js ''fix'', js ''design'', [0x5B9F, 0x88C5],
                              [0x4FEE, 0x6B63], [0x8A2D, 0x8A08] ]) M \<and>
        \<not> list_ex mentionsLearning M)"
  by (simp add: validateTodos_def Let_def push_def defaultEnhancer_def TodoEnhancer_def)

lemma validated_document_is_document:
  "matchesAny [ [0x6307, 0x793A, 0x66F8], js ''instruction'', js ''report'',
                [0x5831, 0x544A, 0x66F8] ] t \<Longrightarrow> matchesAny documentKeywords t"
  by (auto simp: matchesAny_def documentKeywords_def)

lemma validated_work_is_trigger:
  "matchesAny [ js ''implement'', js ''fix'', js ''design'', [0x5B9F, 0x88C5],
                [0x4FEE, 0x6B63], [0x8A2D, 0x8A08] ] t \<Longrightarrow> matchesAny learningTriggers t"
  by (auto simp: matchesAny_def learningTriggers_def)

lemma rule_items_not_validated_documents:
  "\<not> matchesAny [ [0x6307, 0x793A, 0x66F8], js ''instruction'', js ''report'',
                  [0x5831, 0x544A, 0x66F8] ] gitCommitTask"
  "\<not> matchesAny [ [0x6307, 0x793A, 0x66F8], js ''instruction'', js ''report'',
                  [0x5831, 0x544A, 0x66F8] ] learningTask"
  by code_simp+

lemma validateTodos_accepts_enhanced_list:
  assumes "list_ex mentionsGitCommit L \<or> \<not> list_ex mentionsCommitWord L"
  shows "valid (validateTodos defaultEnhancer (enhanceTodos defaultEnhancer L))"
proof -
  let ?M = "enhanceTodos defaultEnhancer L"
  let ?doc = "matchesAny [ [0x6307, 0x793A, 0x66F8], js ''instruction'', js ''report'',
                           [0x5831, 0x544A, 0x66F8] ]"
  let ?work = "matchesAny [ js ''implement'', js ''fix'', js ''design'', [0x5B9F, 0x88C5],
                            [0x4FEE, 0x6B63], [0x8A2D, 0x8A08] ]"
  have learning: "list_ex mentionsLearning ?M" if "list_ex ?work ?M"
  proof -
    from that have "hasLearningOpportunity ?M"
      using validated_work_is_trigger
      by (auto simp: hasLearningOpportunity_def list_ex_iff)
    then show ?thesis
      using enhanceTodos_learning_settled [of L] by (simp add: hasLearningTask_def)
  qed
  have commit: "list_ex mentionsGitCommit ?M" if d: "list_ex ?doc ?M"
  proof (cases "list_ex mentionsGitCommit L")
    case True
    then show ?thesis
      by (simp add: enhanceTodos_default list_ex_addLearningCapture list_ex_addGitCommitRule)
  next
    case False
    then have nc: "\<not> hasGitCommit L"
      using assms by (simp add: hasGitCommit_def list_ex_iff mentionsCommit_iff)
    from d have "list_ex ?doc L"
      by (simp add: enhanceTodos_default list_ex_addLearningCapture list_ex_addGitCommitRule
            rule_items_not_validated_documents)
    then have "hasDocumentCreation L"
      using validated_document_is_document
      by (auto simp: hasDocumentCreation_def list_ex_iff)
    then show ?thesis
      using nc
      by (simp add: enhanceTodos_default list_ex_addLearningCapture list_ex_addGitCommitRule
            gitCommitTask_facts)
  qed
  show ?thesis
    unfolding validateTodos_valid_iff using learning commit by blast
qed

text \<open>
  C1. Idempotence of \<open>enhanceTodos\<close> under the default options would say that a second
  run returns the list of the first run. The code does not do that on the list with the
  single item "Implement feature X": the first run adds the learning-capture item (the
  commit rule has already run and found no document keyword); the content of that item
  contains \<open>learning\<close> and \<open>pattern\<close>, which are document keywords, so the second run
  appends the commit item.
\<close>

theorem enhanceTodos_second_run_appends_commit:
  "enhanceTodos defaultEnhancer [todoItem ''Implement feature X'']
     = [todoItem ''Implement feature X'', learningTask] \<and>
   enhanceTodos defaultEnhancer (enhanceTodos defaultEnhancer [todoItem ''Implement feature X''])
     = [todoItem ''Implement feature X'', learningTask, gitCommitTask]"
  by code_simp

text \<open>
  C2. Validation of an enhanced list would always succeed. The code does not do that on
  the list with the single item "Write report and commit": \<open>addGitCommitRule\<close> takes the
  word \<open>commit\<close> for an existing commit task and adds nothing, while \<open>validateTodos\<close> asks
  for \<open>git commit\<close> and reports the violation.
\<close>

theorem validateTodos_rejects_enhanced_list:
  "enhanceTodos defaultEnhancer [todoItem ''Write report and commit'']
     = [todoItem ''Write report and commit''] \<and>
   validateTodos defaultEnhancer
       (enhanceTodos defaultEnhancer [todoItem ''Write report and commit''])
     = \<lparr> valid = False,
         violations = [js ''Document creation tasks must include git commit task''] \<rparr>"
  by code_simp

text \<open>
  C6, as stated, at a list that also holds substantial work: the list has an item with
  content "Create instruction doc" and no item containing \<open>commit\<close>, yet the enhanced
  list is not one item longer (it is two items longer).
\<close>

theorem commit_rule_one_more_item_counterexample:
  "content ([todoItem ''Create instruction doc'', todoItem ''Implement feature X''] ! 0)
     = js ''Create instruction doc'' \<and>
   \<not> list_ex mentionsCommitWord
        [todoItem ''Create instruction doc'', todoItem ''Implement feature X''] \<and>
   length (enhanceTodos defaultEnhancer
             [todoItem ''Create instruction doc'', todoItem ''Implement feature X''])
     \<noteq> length [todoItem ''Create instruction doc'', todoItem ''Implement feature X''] + 1"
  by code_simp

text \<open>
  C6, amended. For a list \<open>L\<close> with an item whose content is "Create instruction doc" and
  no item whose content contains \<open>commit\<close> (case-insensitively), \<open>enhanceTodos\<close> with the
  default options appends the commit item (content "Git commit documentation changes",
  activeForm "Committing documentation changes", status pending) as the last item. The
  result has one more item than \<open>L\<close> when the learning-capture rule does not fire, and two
  more when it does (some item of \<open>L\<close> names substantial work and none mentions learning):
  then the learning-capture item stands directly in front of the commit item.
\<close>

theorem commit_rule_after_instruction_doc:
  assumes "t \<in> set L" and "content t = js ''Create instruction doc''"
    and "\<not> list_ex mentionsCommitWord L"
  shows "enhanceTodos defaultEnhancer L =
           (if hasLearningOpportunity L \<and> \<not> hasLearningTask L
            then L @ [learningTask, gitCommitTask] else L @ [gitCommitTask]) \<and>
         last (enhanceTodos defaultEnhancer L) = gitCommitTask \<and>
         length (enhanceTodos defaultEnhancer L) =
           (if hasLearningOpportunity L \<and> \<not> hasLearningTask L
            then length L + 2 else length L + 1)"
proof -
  have doc: "hasDocumentCreation L"
    using assms(1,2) instruction_doc_is_document
    by (auto simp: hasDocumentCreation_def list_ex_iff)
  have nocommit: "\<not> hasGitCommit L"
    using assms(3) by (simp add: hasGitCommit_def list_ex_iff mentionsCommit_iff)
  have nogit: "\<not> list_ex mentionsGitCommit L"
    using nocommit mentionsGitCommit_imp by (auto simp: hasGitCommit_def list_ex_iff)
  have rule1: "addGitCommitRule L = L @ [gitCommitTask]"
    using doc nocommit by (simp add: addGitCommitRule_def push_def)
  have opp: "hasLearningOpportunity (L @ [gitCommitTask]) = hasLearningOpportunity L"
    by (simp add: hasLearningOpportunity_def gitCommitTask_facts)
  have task: "hasLearningTask (L @ [gitCommitTask]) = hasLearningTask L"
    by (simp add: hasLearningTask_def gitCommitTask_facts)
  have idx: "findIndex mentionsGitCommit (L @ [gitCommitTask]) = int (length L)"
    using nogit by (simp add: findIndex_append_first gitCommitTask_facts)
  have rule2: "addLearningCapture (L @ [gitCommitTask]) =
      (if hasLearningOpportunity L \<and> \<not> hasLearningTask L
       then L @ [learningTask, gitCommitTask] else L @ [gitCommitTask])"
    by (simp add: addLearningCapture_def opp task idx splice_insert_def)
  have "enhanceTodos defaultEnhancer L = addLearningCapture (addGitCommitRule L)"
    by (simp add: enhanceTodos_def defaultEnhancer_def TodoEnhancer_def)
  then have eq: "enhanceTodos defaultEnhancer L =
      (if hasLearningOpportunity L \<and> \<not> hasLearningTask L
       then L @ [learningTask, gitCommitTask] else L @ [gitCommitTask])"
    by (simp only: rule1 rule2)
  show ?thesis
    by (simp add: eq)
qed

theorem commit_rule_after_instruction_doc_witness:
  "todoItem ''Create instruction doc'' \<in> set [todoItem ''Create instruction doc''] \<and>
   content (todoItem ''Create instruction doc'') = js ''Create instruction doc'' \<and>
   \<not> list_ex mentionsCommitWord [todoItem ''Create instruction doc''] \<and>
   enhanceTodos defaultEnhancer [todoItem ''Create instruction doc'']
     = [todoItem ''Create instruction doc'', gitCommitTask]"
proof -
  have h1: "todoItem ''Create instruction doc'' \<in> set [todoItem ''Create instruction doc'']"
    by simp
  have h2: "content (todoItem ''Create instruction doc'') = js ''Create instruction doc''"
    by (simp add: todoItem_def)
  have h3: "\<not> list_ex mentionsCommitWord [todoItem ''Create instruction doc'']"
    by code_simp
  have h4: "\<not> hasLearningOpportunity [todoItem ''Create instruction doc'']"
    by code_simp
  from commit_rule_after_instruction_doc [OF h1 h2 h3] h4
  have "enhanceTodos defaultEnhancer [todoItem ''Create instruction doc'']
     = [todoItem ''Create instruction doc'', gitCommitTask]" by simp
  with h1 h2 h3 show ?thesis by blast
qed

lemma implement_feature_content:
  assumes "content i = js ''Implement feature X''"
  shows "matchesAny learningTriggers i" "\<not> mentionsLearning i"
    "\<not> matchesAny documentKeywords i" "\<not> mentionsGitCommit i"
  using assms
  by (simp_all add: matchesAny_def learningTriggers_def documentKeywords_def
        mentionsLearning_def mentionsGitCommit_def js_def toLowerCase_def toLowerCaseUnit_def)

lemma git_commit_content:
  assumes "content c = js ''Git commit documentation changes''"
  shows "\<not> mentionsLearning c" "\<not> matchesAny documentKeywords c" "mentionsGitCommit c"
  using assms
  by (simp_all add: matchesAny_def documentKeywords_def
        mentionsLearning_def mentionsGitCommit_def js_def toLowerCase_def toLowerCaseUnit_def)

lemma enhanceTodos_when_learning_fires:
  assumes "hasLearningOpportunity L" and "\<not> hasLearningTask L"
  shows "enhanceTodos defaultEnhancer L =
           (if hasDocumentCreation L \<and> \<not> hasGitCommit L
            then L @ [learningTask, gitCommitTask]
            else if list_ex mentionsGitCommit L
            then takeWhile (\<lambda>t. \<not> mentionsGitCommit t) L @ learningTask #
                 dropWhile (\<lambda>t. \<not> mentionsGitCommit t) L
            else L @ [learningTask])"
proof (cases "hasDocumentCreation L \<and> \<not> hasGitCommit L")
  case True
  then have a: "addGitCommitRule L = L @ [gitCommitTask]"
    by (simp add: addGitCommitRule_def push_def)
  have nogit: "\<forall>t \<in> set L. \<not> mentionsGitCommit t"
    using True mentionsGitCommit_imp by (auto simp: hasGitCommit_def list_ex_iff)
  have fire: "hasLearningOpportunity (L @ [gitCommitTask]) \<and>
              \<not> hasLearningTask (L @ [gitCommitTask])"
    using assms by (simp add: hasLearningOpportunity_def hasLearningTask_def gitCommitTask_facts)
  have "addLearningCapture (L @ [gitCommitTask]) = L @ [learningTask, gitCommitTask]"
    using fire nogit
    by (simp add: addLearningCapture_shape gitCommitTask_facts takeWhile_append2
          dropWhile_append2)
  then show ?thesis using True by (simp add: enhanceTodos_default a)
next
  case False
  then have a: "addGitCommitRule L = L" by (auto simp: addGitCommitRule_def)
  show ?thesis using False assms by (auto simp: enhanceTodos_default a addLearningCapture_shape)
qed

text \<open>
  C7, as stated, at the list with the single item "Implement report": no item of the
  list matches \<open>git commit\<close>, yet the learning-capture item is not appended at the end.
  The commit rule runs first and appends the commit item (\<open>report\<close> is a document
  keyword), and the learning-capture item is inserted in front of it.
\<close>

theorem learning_capture_not_last_counterexample:
  "\<not> list_ex mentionsGitCommit [todoItem ''Implement report''] \<and>
   enhanceTodos defaultEnhancer [todoItem ''Implement report'']
     = [todoItem ''Implement report'', learningTask, gitCommitTask] \<and>
   last (enhanceTodos defaultEnhancer [todoItem ''Implement report'']) \<noteq> learningTask"
  by code_simp

text \<open>
  C7, amended. On a list of an item with content "Implement feature X" followed by an
  item with content "Git commit documentation changes" (whatever their activeForm and
  status), \<open>enhanceTodos\<close> with the default options returns the implement item, the
  learning-capture item and the commit item, in this order. In general, when the
  learning-capture rule fires on \<open>L\<close> (some item names substantial work, none mentions
  learning), the new item is inserted directly in front of the first item that matches
  \<open>git commit\<close> (case-insensitively) in the list the commit rule leaves behind: in front
  of the commit item that rule has just appended when it fired, otherwise in front of the
  first matching item of \<open>L\<close>; it is appended at the end only when the commit rule did
  not fire and no item of \<open>L\<close> matches.
\<close>

theorem learning_capture_position_in_enhanceTodos:
  "(content i = js ''Implement feature X'' \<and>
    content c = js ''Git commit documentation changes'' \<longrightarrow>
      enhanceTodos defaultEnhancer [i, c] = [i, learningTask, c]) \<and>
   (hasLearningOpportunity L \<and> \<not> hasLearningTask L \<longrightarrow>
      enhanceTodos defaultEnhancer L =
        (if hasDocumentCreation L \<and> \<not> hasGitCommit L
         then L @ [learningTask, gitCommitTask]
         else if list_ex mentionsGitCommit L
         then takeWhile (\<lambda>t. \<not> mentionsGitCommit t) L @ learningTask #
              dropWhile (\<lambda>t. \<not> mentionsGitCommit t) L
         else L @ [learningTask]))"
proof (intro conjI impI)
  assume h: "content i = js ''Implement feature X'' \<and>
             content c = js ''Git commit documentation changes''"
  have fire: "hasLearningOpportunity [i, c]" "\<not> hasLearningTask [i, c]"
    using h implement_feature_content [of i] git_commit_content [of c]
    by (simp_all add: hasLearningOpportunity_def hasLearningTask_def)
  have nodoc: "\<not> hasDocumentCreation [i, c]"
    using h implement_feature_content [of i] git_commit_content [of c]
    by (simp add: hasDocumentCreation_def)
  show "enhanceTodos defaultEnhancer [i, c] = [i, learningTask, c]"
    using h implement_feature_content [of i] git_commit_content [of c] nodoc
    by (simp add: enhanceTodos_when_learning_fires [OF fire])
next
  assume "hasLearningOpportunity L \<and> \<not> hasLearningTask L"
  then show "enhanceTodos defaultEnhancer L =
        (if hasDocumentCreation L \<and> \<not> hasGitCommit L
         then L @ [learningTask, gitCommitTask]
         else if list_ex mentionsGitCommit L
         then takeWhile (\<lambda>t. \<not> mentionsGitCommit t) L @ learningTask #
              dropWhile (\<lambda>t. \<not> mentionsGitCommit t) L
         else L @ [learningTask])"
    by (simp add: enhanceTodos_when_learning_fires)
qed

theorem learning_capture_position_in_enhanceTodos_witness:
  "content implementInProgress = js ''Implement feature X'' \<and>
   content gitCommitTask = js ''Git commit documentation changes'' \<and>
   enhanceTodos defaultEnhancer [implementInProgress, gitCommitTask]
     = [implementInProgress, learningTask, gitCommitTask] \<and>
   hasLearningOpportunity [todoItem ''Fix login'', todoItem ''Deploy''] \<and>
   \<not> hasLearningTask [todoItem ''Fix login'', todoItem ''Deploy''] \<and>
   enhanceTodos defaultEnhancer [todoItem ''Fix login'', todoItem ''Deploy'']
     = [todoItem ''Fix login'', todoItem ''Deploy'', learningTask]"
proof -
  have c1: "content implementInProgress = js ''Implement feature X'' \<and>
            content gitCommitTask = js ''Git commit documentation changes''"
    by (simp add: implementInProgress_def gitCommitTask_def)
  have h: "hasLearningOpportunity [todoItem ''Fix login'', todoItem ''Deploy''] \<and>
           \<not> hasLearningTask [todoItem ''Fix login'', todoItem ''Deploy'']" by code_simp
  have g: "\<not> hasDocumentCreation [todoItem ''Fix login'', todoItem ''Deploy''] \<and>
           \<not> list_ex mentionsGitCommit [todoItem ''Fix login'', todoItem ''Deploy'']"
    by code_simp
  note inst = learning_capture_position_in_enhanceTodos
      [of implementInProgress gitCommitTask "[todoItem ''Fix login'', todoItem ''Deploy'']"]
  have a: "enhanceTodos defaultEnhancer [implementInProgress, gitCommitTask]
             = [implementInProgress, learningTask, gitCommitTask]"
    using inst c1 by blast
  have b: "enhanceTodos defaultEnhancer [todoItem ''Fix login'', todoItem ''Deploy'']
             = [todoItem ''Fix login'', todoItem ''Deploy'', learningTask]"
    using inst h g by simp
  show ?thesis using c1 a h b by blast
qed

text \<open>
  C9. \<open>enhanceTodos\<close> is a total function with no error result, for every list and every
  options object (\<open>this\<close> ranges over all of them, those built by the constructor
  included). The items of the input occur in the result in their original order (the
  input is a subsequence of the result), the result is at least as long as the input,
  and at most two items are added.
\<close>

theorem enhanceTodos_keeps_items_in_order:
  "subseq todos (enhanceTodos this todos) \<and>
   length todos \<le> length (enhanceTodos this todos) \<and>
   length (enhanceTodos this todos) \<le> length todos + 2"
proof -
  have s: "subseq todos (addLearningCapture (addGitCommitRule todos))"
    using subseq_addGitCommitRule subseq_addLearningCapture subseq_order.trans by blast
  have l: "length todos \<le> length (addLearningCapture (addGitCommitRule todos)) \<and>
           length (addLearningCapture (addGitCommitRule todos)) \<le> length todos + 2"
    using length_addGitCommitRule [of todos]
      length_addLearningCapture [of "addGitCommitRule todos"]
    by linarith
  show ?thesis
    using s l length_addGitCommitRule [of todos] length_addLearningCapture [of todos]
    by (simp add: enhanceTodos_def subseq_addGitCommitRule subseq_addLearningCapture)
qed

section \<open>The slug of a task\<close>

lemma substring_from_start: "substring s 0 n = take n s"
  by (cases "n \<le> length s") (simp_all add: substring_def min_def)

lemma collapse_spec_replaceWhiteSpaceRuns:
  "collapse_spec True s = replaceWhiteSpaceRuns (dropWhile isWhiteSpace s) \<and>
   collapse_spec False s = replaceWhiteSpaceRuns s"
  by (induction s) auto

lemma replaceWhiteSpaceRuns_units:
  "list_all (\<lambda>c. isLowerAlnum c \<or> isWhiteSpace c) s \<Longrightarrow>
   list_all (\<lambda>c. isLowerAlnum c \<or> c = 0x5F) (replaceWhiteSpaceRuns s)"
proof (induction s rule: replaceWhiteSpaceRuns.induct)
  case 1
  then show ?case by simp
next
  case (2 c cs)
  have "set (dropWhile isWhiteSpace cs) \<subseteq> set cs" by (auto dest: set_dropWhileD)
  then have "list_all (\<lambda>c. isLowerAlnum c \<or> isWhiteSpace c) (dropWhile isWhiteSpace cs)"
    using "2.prems" by (auto simp: list_all_iff)
  then show ?case using 2 by auto
qed

lemma list_all_take: "list_all P xs \<Longrightarrow> list_all P (take n xs)"
  by (auto simp: list_all_iff dest: in_set_takeD)

text \<open>
  C8. \<open>sanitizeTaskName\<close> is a function of the task text alone. Its result is the slug
  the specification describes (the text lower-cased, everything but lowercase letters,
  digits and white space removed, each run of white space replaced by one underscore, cut
  to 30 code units); it is at most 30 code units long and consists of lowercase letters,
  digits and underscores only. For "Design Phase!!" it is \<open>design_phase\<close>; the two
  letters outside ASCII whose lower case is an ASCII letter are kept as that letter (the
  Kelvin sign and the dotted capital I in "Kelvin Istanbul" give \<open>kelvin_istanbul\<close>).
\<close>

theorem sanitizeTaskName_slug:
  "sanitizeTaskName text = slug_spec text \<and>
   length (sanitizeTaskName text) \<le> 30 \<and>
   list_all (\<lambda>c. isLowerAlnum c \<or> c = 0x5F) (sanitizeTaskName text) \<and>
   sanitizeTaskName (js ''Design Phase!!'') = js ''design_phase'' \<and>
   sanitizeTaskName ([0x212A] @ js ''elvin '' @ [0x0130] @ js ''stanbul'')
     = js ''kelvin_istanbul''"
proof (intro conjI)
  show "sanitizeTaskName text = slug_spec text"
    by (simp add: sanitizeTaskName_def slug_spec_def removeOtherUnits_def substring_from_start
          collapse_spec_replaceWhiteSpaceRuns)
  show "length (sanitizeTaskName text) \<le> 30"
    by (simp add: sanitizeTaskName_def substring_from_start)
  have "list_all (\<lambda>c. isLowerAlnum c \<or> isWhiteSpace c) (removeOtherUnits (toLowerCase text))"
    by (simp add: removeOtherUnits_def list_all_iff)
  then show "list_all (\<lambda>c. isLowerAlnum c \<or> c = 0x5F) (sanitizeTaskName text)"
    by (simp add: sanitizeTaskName_def substring_from_start replaceWhiteSpaceRuns_units
          list_all_take)
  show "sanitizeTaskName (js ''Design Phase!!'') = js ''design_phase''"
    by code_simp
  show "sanitizeTaskName ([0x212A] @ js ''elvin '' @ [0x0130] @ js ''stanbul'')
          = js ''kelvin_istanbul''"
    by code_simp
qed

section \<open>The phase chain\<close>

text \<open>
  C5. \<open>generateFDDWorkflow\<close> yields the phases ui-mockup, prototype, implementation,
  integration when \<open>enableUserTesting\<close> is not set, and ui-mockup, prototype, user-test,
  implementation, integration when it is set. For every configuration the last phase is
  integration, and integration carries no \<open>nextPhase\<close>; every other phase names the
  phase that follows it. The constructor leaves \<open>enableUserTesting\<close> set exactly when the
  caller passed \<open>true\<close>.
\<close>

theorem generateFDDWorkflow_phase_chain:
  "map name (generateFDDWorkflow this feature) =
     (if truthy (enableUserTesting this)
      then [ui_mockup, prototype, user_test, implementation, integration]
      else [ui_mockup, prototype, implementation, integration]) \<and>
   name (last (generateFDDWorkflow this feature)) = integration \<and>
   nextPhase (last (generateFDDWorkflow this feature)) = Absent \<and>
   map nextPhase (filter (\<lambda>p. name p = integration) (generateFDDWorkflow this feature))
     = [Absent] \<and>
   map nextPhase (butlast (generateFDDWorkflow this feature))
     = map (\<lambda>p. Given (fddPhaseText (name p))) (tl (generateFDDWorkflow this feature)) \<and>
   truthy (enableUserTesting (FDDWorkflowManager config))
     = (enableUserTesting config = Given True)"
proof -
  have "truthy (enableUserTesting (FDDWorkflowManager config))
     = (enableUserTesting config = Given True)"
    by (cases "enableUserTesting config") (auto simp: FDDWorkflowManager_def)
  then show ?thesis
    by (simp add: generateFDDWorkflow_def push_def)
qed

section \<open>The caller's array\<close>

lemma addGitCommitRule_ref_eq:
  "addGitCommitRule_ref r s =
     (r, s\<lparr> arrays := (arrays s)(r := addGitCommitRule (arrays s r)) \<rparr>)"
  by (simp add: addGitCommitRule_ref_def addGitCommitRule_def array_push_def)

lemma addLearningCapture_ref_eq:
  "addLearningCapture_ref r s =
     (r, s\<lparr> arrays := (arrays s)(r := addLearningCapture (arrays s r)) \<rparr>)"
  by (simp add: addLearningCapture_ref_def addLearningCapture_def array_push_def
        array_splice_insert_def Let_def)

lemma enhanceTodos_ref_eq:
  "enhanceTodos_ref this todos s =
     (next_ref s,
      s\<lparr> arrays := (arrays s)(next_ref s := enhanceTodos this (arrays s todos)),
         next_ref := Suc (next_ref s) \<rparr>)"
  by (simp add: enhanceTodos_ref_def enhanceTodos_def array_spread_def Let_def
        addGitCommitRule_ref_eq addLearningCapture_ref_eq)

text \<open>
  C10. \<open>enhanceTodos\<close> does not update the array the caller passes in. For every store,
  every allocated reference \<open>todos\<close> and every options object, the call returns a
  reference different from \<open>todos\<close> (the fresh copy), the array behind \<open>todos\<close> is the same
  after the call as before (as is every other allocated array \<open>q\<close>), and the array
  behind the returned reference is the enhanced list.
\<close>

theorem enhanceTodos_ref_leaves_callers_array:
  assumes "todos < next_ref s" and "q < next_ref s"
  shows "fst (enhanceTodos_ref this todos s) \<noteq> todos \<and>
         arrays (snd (enhanceTodos_ref this todos s)) todos = arrays s todos \<and>
         arrays (snd (enhanceTodos_ref this todos s)) q = arrays s q \<and>
         arrays (snd (enhanceTodos_ref this todos s)) (fst (enhanceTodos_ref this todos s))
           = enhanceTodos this (arrays s todos)"
  using assms by (simp add: enhanceTodos_ref_eq)

theorem enhanceTodos_ref_leaves_callers_array_witness:
  "(0::nat) < next_ref exampleStore \<and>
   fst (enhanceTodos_ref defaultEnhancer 0 exampleStore) = 1 \<and>
   arrays (snd (enhanceTodos_ref defaultEnhancer 0 exampleStore)) 0
     = [todoItem ''Implement feature X''] \<and>
   arrays (snd (enhanceTodos_ref defaultEnhancer 0 exampleStore)) 1
     = [todoItem ''Implement feature X'', learningTask]"
proof -
  have h: "(0::nat) < next_ref exampleStore" by (simp add: exampleStore_def)
  have f: "fst (enhanceTodos_ref defaultEnhancer 0 exampleStore) = 1"
    by (simp add: enhanceTodos_ref_eq exampleStore_def)
  have a: "arrays exampleStore 0 = [todoItem ''Implement feature X'']"
    by (simp add: exampleStore_def)
  have e: "enhanceTodos defaultEnhancer [todoItem ''Implement feature X'']
             = [todoItem ''Implement feature X'', learningTask]"
    by code_simp
  from enhanceTodos_ref_leaves_callers_array [OF h h, of defaultEnhancer] f a e h
  show ?thesis by simp
qed

text \<open>By contrast, the private rule updates the array it is given.\<close>

lemma addLearningCapture_ref_updates_in_place:
  "fst (addLearningCapture_ref 0 exampleStore) = 0 \<and>
   arrays (snd (addLearningCapture_ref 0 exampleStore)) 0
     = [todoItem ''Implement feature X'', learningTask]"
proof -
  have e: "addLearningCapture [todoItem ''Implement feature X'']
             = [todoItem ''Implement feature X'', learningTask]"
    by code_simp
  show ?thesis by (simp add: addLearningCapture_ref_eq exampleStore_def e)
qed

section \<open>Instruction documents\<close>

lemma sanitizeTaskName_empty: "sanitizeTaskName [] = []"
  by (simp add: sanitizeTaskName_def toLowerCase_def removeOtherUnits_def substring_def)

lemma createInstruction_resolves:
  assumes "fs_mkdir os (join docs
             [js ''instructions'', js ''To'' @ capitalize (roleName (to_role request))]) w
           = (Inr (), w1)"
    and "fs_writeFile os
           (join docs
              [js ''instructions'', js ''To'' @ capitalize (roleName (to_role request)),
               instructionFileName request (generateTimestamp os w)])
           (generateInstructionContent os request (generateTimestamp os w)) w1
         = (Inr (), w2)"
  shows "createInstruction os docs request w =
           (Inr (join docs
                   [js ''instructions'', js ''To'' @ capitalize (roleName (to_role request)),
                    instructionFileName request (generateTimestamp os w)]), w2)"
  using assms by (simp add: createInstruction_def Let_def await_def resolve_def)

text \<open>
  C4, as stated, at a request whose task is the empty string: \<open>createInstruction\<close> does
  not fail; it resolves with the path of the document it has written, whose file name has
  an empty slug.
\<close>

theorem createInstruction_accepts_empty_task_counterexample:
  "task emptyTaskRequest = [] \<and>
   createInstruction diskPlatform [js ''docs''] emptyTaskRequest \<lparr> written = [], quota = 1 \<rparr>
     = (Inr [js ''docs'', js ''instructions'', js ''ToGemini'',
             js ''claude_to_gemini_202401011200_.md''],
        \<lparr> written = [([js ''docs'', js ''instructions'', js ''ToGemini'',
                         js ''claude_to_gemini_202401011200_.md''], [])],
          quota = 0 \<rparr>)"
  by code_simp

lemma createInstruction_rejects:
  assumes "createInstruction os docs request w = (Inl e, w')"
  shows "fs_mkdir os (join docs
             [js ''instructions'', js ''To'' @ capitalize (roleName (to_role request))]) w
           = (Inl e, w') \<or>
         (\<exists>w1. fs_mkdir os (join docs
             [js ''instructions'', js ''To'' @ capitalize (roleName (to_role request))]) w
           = (Inr (), w1) \<and>
           fs_writeFile os
             (join docs
                [js ''instructions'', js ''To'' @ capitalize (roleName (to_role request)),
                 instructionFileName request (generateTimestamp os w)])
             (generateInstructionContent os request (generateTimestamp os w)) w1
           = (Inl e, w'))"
  using assms
  by (auto simp: createInstruction_def Let_def await_def resolve_def
        split: prod.splits sum.splits)

text \<open>
  C4, amended. \<open>createInstruction\<close> does not validate its request. For every request,
  also one whose task is the empty string, it resolves with the path of the written
  document whenever \<open>mkdir\<close> and \<open>writeFile\<close> succeed, and when it rejects, the rejection
  is that of \<open>mkdir\<close> or of \<open>writeFile\<close>. With an empty task the file name is
  \<open>from_to_to_timestamp_.md\<close>. (The sender and the receiver are roles, so they are never
  empty.)
\<close>

theorem createInstruction_does_not_validate:
  "(let dir = join docs [js ''instructions'', js ''To'' @ capitalize (roleName (to_role request))];
        file = join docs
                 [js ''instructions'', js ''To'' @ capitalize (roleName (to_role request)),
                  instructionFileName request (generateTimestamp os w)];
        body = generateInstructionContent os request (generateTimestamp os w)
    in (fs_mkdir os dir w = (Inr (), w1) \<and> fs_writeFile os file body w1 = (Inr (), w2) \<longrightarrow>
          createInstruction os docs request w = (Inr file, w2)) \<and>
       (createInstruction os docs request w = (Inl e, w') \<longrightarrow>
          fs_mkdir os dir w = (Inl e, w') \<or>
          (\<exists>v. fs_mkdir os dir w = (Inr (), v) \<and> fs_writeFile os file body v = (Inl e, w')))) \<and>
   (task request = [] \<longrightarrow>
      instructionFileName request timestamp =
        roleName (from_role request) @ js ''_to_'' @ roleName (to_role request) @ js ''_'' @
        timestamp @ js ''_.md'')"
proof -
  have "task request = [] \<longrightarrow>
      instructionFileName request timestamp =
        roleName (from_role request) @ js ''_to_'' @ roleName (to_role request) @ js ''_'' @
        timestamp @ js ''_.md''"
    by (simp add: instructionFileName_def sanitizeTaskName_empty js_def)
  then show ?thesis
    using createInstruction_resolves [of os docs request w w1 w2]
      createInstruction_rejects [of os docs request w e w']
    by (simp add: Let_def)
qed

theorem createInstruction_does_not_validate_witness:
  "task emptyTaskRequest = [] \<and>
   createInstruction diskPlatform [js ''docs''] emptyTaskRequest \<lparr> written = [], quota = 1 \<rparr>
     = (Inr [js ''docs'', js ''instructions'', js ''ToGemini'',
             instructionFileName emptyTaskRequest (js ''202401011200'')],
        \<lparr> written = [([js ''docs'', js ''instructions'', js ''ToGemini'',
                         instructionFileName emptyTaskRequest (js ''202401011200'')], [])],
          quota = 0 \<rparr>) \<and>
   instructionFileName emptyTaskRequest (js ''202401011200'')
     = js ''claude_to_gemini_202401011200_.md'' \<and>
   createInstruction diskPlatform [js ''docs''] emptyTaskRequest \<lparr> written = [], quota = 0 \<rparr>
     = (Inl diskFull, \<lparr> written = [], quota = 0 \<rparr>) \<and>
   fs_writeFile diskPlatform
       [js ''docs'', js ''instructions'', js ''ToGemini'',
        instructionFileName emptyTaskRequest (js ''202401011200'')] []
       \<lparr> written = [], quota = 0 \<rparr>
     = (Inl diskFull, \<lparr> written = [], quota = 0 \<rparr>)"
proof -
  have t: "task emptyTaskRequest = []" by (simp add: emptyTaskRequest_def)
  have cap: "js ''To'' @ capitalize (roleName (to_role emptyTaskRequest)) = js ''ToGemini''"
    by code_simp
  have ts: "generateTimestamp diskPlatform d = js ''202401011200''" for d
    by (simp add: diskPlatform_def)
  have body: "generateInstructionContent diskPlatform emptyTaskRequest x = []" for x
    by (simp add: diskPlatform_def emptyTaskRequest_def)
  have mk: "fs_mkdir diskPlatform p d = (Inr (), d)" for p d
    by (simp add: diskPlatform_def resolve_def)
  have wr1: "fs_writeFile diskPlatform p c \<lparr> written = [], quota = 1 \<rparr>
               = (Inr (), \<lparr> written = [(p, c)], quota = 0 \<rparr>)" for p c
    by (simp add: diskPlatform_def)
  have wr0: "fs_writeFile diskPlatform p c \<lparr> written = [], quota = 0 \<rparr>
               = (Inl diskFull, \<lparr> written = [], quota = 0 \<rparr>)" for p c
    by (simp add: diskPlatform_def)
  have rej: "createInstruction diskPlatform [js ''docs''] emptyTaskRequest
               \<lparr> written = [], quota = 0 \<rparr>
             = (Inl diskFull, \<lparr> written = [], quota = 0 \<rparr>)"
    by (simp add: createInstruction_def Let_def await_def mk wr0)
  note inst = createInstruction_does_not_validate
    [of "[js ''docs'']" emptyTaskRequest diskPlatform "\<lparr> written = [], quota = 1 \<rparr>"
        "\<lparr> written = [], quota = 1 \<rparr>"
        "\<lparr> written = [([js ''docs'', js ''instructions'', js ''ToGemini'',
                         instructionFileName emptyTaskRequest (js ''202401011200'')], [])],
           quota = 0 \<rparr>"
        diskFull "\<lparr> written = [], quota = 0 \<rparr>" "js ''202401011200''"]
  have res: "createInstruction diskPlatform [js ''docs''] emptyTaskRequest
               \<lparr> written = [], quota = 1 \<rparr>
     = (Inr [js ''docs'', js ''instructions'', js ''ToGemini'',
             instructionFileName emptyTaskRequest (js ''202401011200'')],
        \<lparr> written = [([js ''docs'', js ''instructions'', js ''ToGemini'',
                         instructionFileName emptyTaskRequest (js ''202401011200'')], [])],
          quota = 0 \<rparr>)"
    using inst
      wr1 [of "[js ''docs'', js ''instructions'', js ''ToGemini'',
                instructionFileName emptyTaskRequest (js ''202401011200'')]" "[]"]
    by (simp add: Let_def join_def cap ts body mk)
  have name: "instructionFileName emptyTaskRequest (js ''202401011200'')
     = js ''claude_to_gemini_202401011200_.md''"
    using inst t by (simp add: emptyTaskRequest_def js_def)
  have "fs_writeFile diskPlatform
          [js ''docs'', js ''instructions'', js ''ToGemini'',
           instructionFileName emptyTaskRequest (js ''202401011200'')] []
          \<lparr> written = [], quota = 0 \<rparr>
        = (Inl diskFull, \<lparr> written = [], quota = 0 \<rparr>)"
    using rej
      createInstruction_does_not_validate
        [of "[js ''docs'']" emptyTaskRequest diskPlatform "\<lparr> written = [], quota = 0 \<rparr>"
            "\<lparr> written = [], quota = 0 \<rparr>" "\<lparr> written = [], quota = 0 \<rparr>"
            diskFull "\<lparr> written = [], quota = 0 \<rparr>" "js ''202401011200''"]
    by (simp add: Let_def join_def cap ts body mk)
  then show ?thesis using t res name rej by simp
qed

section \<open>The failure path of the orchestrator\<close>

text \<open>
  The catch block, once the setup has succeeded and the work has rejected with \<open>e\<close>:
  \<open>handleWorkflowError\<close> is awaited first, and \<open>throw error\<close> is reached only when it
  resolves.
\<close>

lemma enhanceSpecWorkflow_failure_path:
  assumes "preWorkflowSetup os this context w = (Inr (), w1)"
    and "originalWorkflow w1 = (Inl e, w2)"
  shows "enhanceSpecWorkflow os this originalWorkflow context w =
           (case message_of e of
              Inl typeError \<Rightarrow> (Inl typeError, w2)
            | Inr message \<Rightarrow>
                (case createReport os (docsPath this) (errorReport context message) w2 of
                   (Inr reportPath, w3) \<Rightarrow> (Inl e, w3)
                 | (Inl reportError, w3) \<Rightarrow> (Inl reportError, w3))) \<and>
         report_status (errorReport context message) = report_blocked"
  using assms
  by (simp add: enhanceSpecWorkflow_def try_catch_def await_def handleWorkflowError_def
        reject_def resolve_def errorReport_def split: sum.splits prod.splits)

text \<open>
  On a disk with room for two files the blocked report is written and the caller gets
  the error of the work.
\<close>

lemma enhanceSpecWorkflow_reraises_when_report_written:
  "fst (preWorkflowSetup diskPlatform [] exampleContext \<lparr> written = [], quota = 2 \<rparr>) = Inr () \<and>
   fst ((reject boom :: (WorkResult option, Disk) promise)
          (snd (preWorkflowSetup diskPlatform [] exampleContext
                  \<lparr> written = [], quota = 2 \<rparr>))) = Inl boom \<and>
   fst (enhanceSpecWorkflow diskPlatform [] (reject boom) exampleContext
          \<lparr> written = [], quota = 2 \<rparr>) = Inl boom \<and>
   map fst (written (snd (enhanceSpecWorkflow diskPlatform [] (reject boom) exampleContext
          \<lparr> written = [], quota = 2 \<rparr>)))
     = [[js ''docs'', js ''instructions'', js ''ToGemini'',
         js ''claude_to_gemini_202401011200_requirements_analysis_for_auth.md''],
        [js ''docs'', js ''reports'', js ''FromGemini'',
         js ''gemini_from_blocked_202401011200_requirements_phase_for_auth.md'']]"
proof -
  define w1 where "w1 = snd (preWorkflowSetup diskPlatform [] exampleContext
                                 \<lparr> written = [], quota = 2 \<rparr>)"
  have "fst (preWorkflowSetup diskPlatform [] exampleContext \<lparr> written = [], quota = 2 \<rparr>)
          = Inr () \<and>
        quota (snd (preWorkflowSetup diskPlatform [] exampleContext
                      \<lparr> written = [], quota = 2 \<rparr>)) = 1 \<and>
        map fst (written (snd (preWorkflowSetup diskPlatform [] exampleContext
                      \<lparr> written = [], quota = 2 \<rparr>)))
          = [[js ''docs'', js ''instructions'', js ''ToGemini'',
              js ''claude_to_gemini_202401011200_requirements_analysis_for_auth.md'']]"
    by code_simp
  then have pre: "preWorkflowSetup diskPlatform [] exampleContext
                    \<lparr> written = [], quota = 2 \<rparr> = (Inr (), w1)"
    and q1: "quota w1 = 1"
    and wr1: "map fst (written w1) = [[js ''docs'', js ''instructions'', js ''ToGemini'',
         js ''claude_to_gemini_202401011200_requirements_analysis_for_auth.md'']]"
    by (simp_all add: w1_def prod_eq_iff)
  have work: "(reject boom :: (WorkResult option, Disk) promise) w1 = (Inl boom, w1)"
    by (simp add: reject_def)
  have msg: "message_of boom = Inr (Given (js ''boom''))" by (simp add: boom_def)
  obtain w3 where rep: "createReport diskPlatform (docsPath [])
                          (errorReport exampleContext (Given (js ''boom''))) w1
                        = (Inr [js ''docs'', js ''reports'', js ''FromGemini'',
         js ''gemini_from_blocked_202401011200_requirements_phase_for_auth.md''], w3)"
    and wr3: "map fst (written w3) =
                map fst (written w1) @
                [[js ''docs'', js ''reports'', js ''FromGemini'',
                  js ''gemini_from_blocked_202401011200_requirements_phase_for_auth.md'']]"
  proof -
    have n: "reportFileName (errorReport exampleContext (Given (js ''boom'')))
               (js ''202401011200'')
             = js ''gemini_from_blocked_202401011200_requirements_phase_for_auth.md''"
      by code_simp
    have c: "js ''From'' @ capitalize (roleName (report_from
               (errorReport exampleContext (Given (js ''boom''))))) = js ''FromGemini''"
      by code_simp
    have d: "docsPath [] = [js ''docs'']" by (simp add: docsPath_def join_def)
    show ?thesis
      using that q1
      by (simp add: createReport_def Let_def await_def resolve_def diskPlatform_def n c d
            join_def)
  qed
  from enhanceSpecWorkflow_failure_path
         [where originalWorkflow = "reject boom" and e = boom and
            message = "Given (js ''boom'')", OF pre work]
  have "enhanceSpecWorkflow diskPlatform [] (reject boom) exampleContext
          \<lparr> written = [], quota = 2 \<rparr> = (Inl boom, w3)"
    by (simp add: msg rep)
  then show ?thesis using pre wr1 wr3 by (simp add: reject_def)
qed

text \<open>
  A rejection with \<open>null\<close>: reading \<open>error.message\<close> throws before any report is written,
  and the caller gets the TypeError.
\<close>

lemma enhanceSpecWorkflow_null_rejection:
  "fst (enhanceSpecWorkflow diskPlatform [] (reject ThrownNull) exampleContext
          \<lparr> written = [], quota = 2 \<rparr>) = Inl nullishAccess \<and>
   nullishAccess \<noteq> ThrownNull \<and>
   map fst (written (snd (enhanceSpecWorkflow diskPlatform [] (reject ThrownNull) exampleContext
          \<lparr> written = [], quota = 2 \<rparr>)))
     = [[js ''docs'', js ''instructions'', js ''ToGemini'',
         js ''claude_to_gemini_202401011200_requirements_analysis_for_auth.md'']]"
  by code_simp

text \<open>
  C3. When \<open>work()\<close> rejects with \<open>e\<close>, the orchestrator would write a blocked report and
  re-raise exactly \<open>e\<close>, whatever happens to the report. The code does not do that on a
  disk with room for one more file: the instruction of the setup is written, \<open>work()\<close>
  rejects with \<open>boom\<close>, the write of the blocked report fails, \<open>handleWorkflowError\<close>
  rejects, \<open>throw error\<close> is never reached, and the caller gets the error of the disk
  instead of \<open>boom\<close>.
\<close>

theorem enhanceSpecWorkflow_loses_error_when_report_fails:
  "fst (preWorkflowSetup diskPlatform [] exampleContext \<lparr> written = [], quota = 1 \<rparr>) = Inr () \<and>
   fst ((reject boom :: (WorkResult option, Disk) promise)
          (snd (preWorkflowSetup diskPlatform [] exampleContext
                  \<lparr> written = [], quota = 1 \<rparr>))) = Inl boom \<and>
   fst (enhanceSpecWorkflow diskPlatform [] (reject boom) exampleContext
          \<lparr> written = [], quota = 1 \<rparr>) = Inl diskFull \<and>
   diskFull \<noteq> boom"
  by code_simp

end
